theory Spec2Isabelle
  imports Complex_Main
begin

section \<open>Data model\<close>

text \<open>
  JavaScript numbers are IEEE doubles; the embedding idealises them as \<open>real\<close>.
  A numeric field of a history record can also be \<^verbatim>\<open>undefined\<close>, \<^verbatim>\<open>null\<close> or
  \<^verbatim>\<open>NaN\<close>; the raw outcome of a round is an integer (the game draws a digit), so
  \<^verbatim>\<open>parseInt\<close> is the identity on it.
\<close>

datatype jsnum = Undefined | Null | NaN | Num int

fun isNaN :: "jsnum \<Rightarrow> bool" where
  "isNaN Undefined = True"
| "isNaN NaN = True"
| "isNaN Null = False"
| "isNaN (Num n) = False"

text \<open>Numeric coercion of a value that passed \<^verbatim>\<open>!isNaN\<close>: \<^verbatim>\<open>null\<close> counts as 0.\<close>

fun toNumber :: "jsnum \<Rightarrow> real" where
  "toNumber (Num n) = real_of_int n"
| "toNumber v = 0"

text \<open>Truthiness of a numeric value: a number other than 0.\<close>

fun truthy :: "jsnum \<Rightarrow> bool" where
  "truthy (Num n) = (n \<noteq> 0)"
| "truthy v = False"

text \<open>\<^verbatim>\<open>null - x\<close> and \<^verbatim>\<open>x - null\<close>: a \<^verbatim>\<open>null\<close> indicator result counts as 0.\<close>

fun nullToZero :: "real option \<Rightarrow> real" where
  "nullToZero None = 0"
| "nullToZero (Some x) = x"

text \<open>Truthiness of an indicator result: neither \<^verbatim>\<open>null\<close> nor 0.\<close>

fun truthyVal :: "real option \<Rightarrow> bool" where
  "truthyVal None = False"
| "truthyVal (Some x) = (x \<noteq> 0)"

datatype status = Pending | Win | Loss | Cooldown

record outcome =
  actual :: jsnum
  actualNumber :: jsnum
  status :: "status option"
  mlFeatures :: "(string \<times> real) list option"
  lastPredictedOutcome :: "string option"

record signal =
  prediction :: string
  source :: string

record model_result = signal +
  confidence :: real

record advisory_result =
  advisorySignals :: "signal list"
  consensusScore :: real
  agreeingModels :: nat
  totalAdvisors :: nat

record market_event =
  event_type :: string
  impact :: real
  timestamp :: int

text \<open>
  \<^verbatim>\<open>systemState\<close>, \<^verbatim>\<open>mlFeatureWeights\<close> (state.js) and \<^verbatim>\<open>marketEvents\<close>
  (market\_sentiment.js) are module-level variables; here they are one state
  record that every operation takes and returns.
\<close>

record core_state =
  MIN_HISTORY :: nat
  BAD_TREND_THRESHOLD :: real
  TARGET_ACCURACY :: real
  EVOLUTION_RATE :: real
  DEFENSIVE_MODE_ACTIVE :: bool
  mlFeatureWeights :: "(string \<times> real) list"
  marketEvents :: "market_event list"

definition initial_weights :: "(string \<times> real) list" where
  "initial_weights =
    [(''rsi_strength'', 1.5),
     (''rsi_is_overbought'', -2.0),
     (''rsi_is_oversold'', 2.0),
     (''macd_hist'', 2.5),
     (''trend_strength_score'', 3.0),
     (''bollinger_pct_reversal'', -2.5),
     (''last_move'', 0.5),
     (''volatility_expansion'', 1.2),
     (''market_sentiment'', 1.0),
     (''stochastic_k'', -1.8),
     (''rsi_trend_strength'', 1.0)]"

definition initial_state :: core_state where
  "initial_state =
    \<lparr>MIN_HISTORY = 100,
     BAD_TREND_THRESHOLD = 0.45,
     TARGET_ACCURACY = 0.54,
     EVOLUTION_RATE = 0.005,
     DEFENSIVE_MODE_ACTIVE = False,
     mlFeatureWeights = initial_weights,
     marketEvents = []\<rparr>"

text \<open>The decision object returned by the orchestrator; absent fields are \<open>None\<close>.\<close>

record decision =
  finalDecision :: string
  finalConfidence :: "real option"
  confidenceLevel :: nat
  overallLogic :: "string option"
  decision_source :: string
  systemHealth :: string
  decision_signals :: "signal list option"

text \<open>
  The shared cycle memory. \<open>persisted\<close> is the copy of the decision object that
  \<^verbatim>\<open>Object.assign\<close> spreads into it; \<open>stats_mlFeatures\<close> and \<open>stats_status\<close> are
  the two extra fields written with it.
\<close>

record stats =
  lastActualOutcome :: jsnum
  stats_lastPredictedOutcome :: "string option"
  longTermGlobalAccuracy :: "real option"
  persisted :: "decision option"
  stats_mlFeatures :: "(string \<times> real) list option"
  stats_status :: "status option"

text \<open>
  The two sources of nondeterminism of one call: \<^verbatim>\<open>Math.random()\<close>, whose
  \<open>k\<close>-th draw within the call is \<open>rand env k\<close>, and \<^verbatim>\<open>Date.now()\<close>.
\<close>

record env =
  rand :: "nat \<Rightarrow> real"
  now :: int

section \<open>utils.js\<close>

fun getBigSmallFromNumber :: "jsnum \<Rightarrow> string option" where
  "getBigSmallFromNumber Undefined = None"
| "getBigSmallFromNumber Null = None"
| "getBigSmallFromNumber NaN = None"
| "getBigSmallFromNumber (Num num) =
     (if num \<ge> 0 \<and> num \<le> 4 then Some ''SMALL''
      else if num \<ge> 5 \<and> num \<le> 9 then Some ''BIG'' else None)"

definition calculateSMA :: "real list \<Rightarrow> nat \<Rightarrow> real option" where
  "calculateSMA data period =
    (if length data < period \<or> period \<le> 0 then None
     else let relevantData = take period data;
              sum = foldl (\<lambda>a b. a + b) 0 relevantData
          in Some (sum / real period))"

definition calculateEMA :: "real list \<Rightarrow> nat \<Rightarrow> real option" where
  "calculateEMA data period =
    (if length data < period \<or> period \<le> 0 then None
     else let k = 2 / (real period + 1);
              chronologicalData = rev data
          in case calculateSMA (rev (take period chronologicalData)) period of
               None \<Rightarrow> None
             | Some ema0 \<Rightarrow>
                 Some (foldl (\<lambda>ema x. (x * k) + (ema * (1 - k))) ema0
                         (drop period chronologicalData)))"

definition calculateStdDev :: "real list \<Rightarrow> nat \<Rightarrow> real option" where
  "calculateStdDev data period =
    (if length data < period \<or> period \<le> 0 then None
     else let relevantData = take period data
          in if length relevantData < 2 then None
             else case calculateSMA relevantData (length relevantData) of
                    None \<Rightarrow> None
                  | Some mean \<Rightarrow>
                      let variance =
                            foldl (\<lambda>acc val. acc + (val - mean) ^ 2) 0 relevantData
                              / (real (length relevantData) - 1)
                      in Some (sqrt variance))"

text \<open>\<open>rsiChanges c ! (i - 1)\<close> is \<^verbatim>\<open>c[i] - c[i - 1]\<close>, for \<open>1 \<le> i < length c\<close>.\<close>

definition rsiChanges :: "real list \<Rightarrow> real list" where
  "rsiChanges c = map (\<lambda>(a, b). b - a) (zip c (tl c))"

text \<open>
  Every caller passes \<open>period = 14\<close>. (For \<open>period = 0\<close> the source divides by zero
  and returns \<^verbatim>\<open>NaN\<close>, which the \<open>real\<close> arithmetic here does not represent.)
\<close>

definition calculateRSI :: "real list \<Rightarrow> nat \<Rightarrow> real option" where
  "calculateRSI data period =
    (if length data < period + 1 then None
     else let chronologicalData = rev data;
              changes = rsiChanges chronologicalData;
              gains = foldl (\<lambda>g change. if change > 0 then g + change else g) 0
                        (take period changes);
              losses = foldl (\<lambda>l change. if change > 0 then l else l + \<bar>change\<bar>) 0
                         (take period changes);
              avgs = foldl (\<lambda>(avgGain, avgLoss) change.
                         ((avgGain * (real period - 1) + (if change > 0 then change else 0))
                            / real period,
                          (avgLoss * (real period - 1) + (if change < 0 then \<bar>change\<bar> else 0))
                            / real period))
                       (gains / real period, losses / real period)
                       (drop period changes)
          in if snd avgs = 0 then Some 100
             else let rs = fst avgs / snd avgs in Some (100 - (100 / (1 + rs))))"

text \<open>\<^verbatim>\<open>history.map(p => p.actualNumber).filter(n => !isNaN(n))\<close>, read as numbers.\<close>

definition numbersOf :: "outcome list \<Rightarrow> real list" where
  "numbersOf history = map toNumber (filter (\<lambda>n. \<not> isNaN n) (map actualNumber history))"

section \<open>primary\_model.js\<close>

definition getTrendContext :: "outcome list \<Rightarrow> nat \<Rightarrow> string \<times> string" where
  "getTrendContext history longMALookback =
    (let numbers = numbersOf history in
     if length numbers < longMALookback then (''UNKNOWN'', ''NONE'')
     else case (calculateEMA numbers 5, calculateEMA numbers 10,
                calculateEMA numbers longMALookback) of
            (Some shortMA, Some mediumMA, Some longMA) \<Rightarrow>
              if shortMA > mediumMA \<and> mediumMA > longMA then (''STRONG'', ''BIG'')
              else if shortMA < mediumMA \<and> mediumMA < longMA then (''STRONG'', ''SMALL'')
              else (''RANGING'', ''NONE'')
          | _ \<Rightarrow> (''UNKNOWN'', ''NONE''))"

text \<open>
  \<^verbatim>\<open>calculateEMA(ns, 12) - calculateEMA(ns, 26)\<close>. The subtraction turns a \<^verbatim>\<open>null\<close>
  average into 0, so the array of these differences that the signal line is computed
  from holds no \<^verbatim>\<open>null\<close>, and the \<^verbatim>\<open>filter(n => n !== null)\<close> applied to it keeps
  every element.
\<close>

definition macdAt :: "real list \<Rightarrow> real" where
  "macdAt ns = nullToZero (calculateEMA ns 12) - nullToZero (calculateEMA ns 26)"

text \<open>The local \<^verbatim>\<open>bollingerPct\<close>; \<^verbatim>\<open>numbers[0]\<close> exists where the 20-sample average does.\<close>

definition bollingerPctOf :: "real list \<Rightarrow> real" where
  "bollingerPctOf numbers =
    (let sma20 = calculateSMA numbers 20;
         stdDev20 = calculateStdDev numbers 20
     in if truthyVal sma20 \<and> truthyVal stdDev20 then
          let upperBand = nullToZero sma20 + (nullToZero stdDev20 * 2.0);
              lowerBand = nullToZero sma20 - (nullToZero stdDev20 * 2.0)
          in if upperBand - lowerBand > 0
             then (hd numbers - lowerBand) / (upperBand - lowerBand) else 0
        else 0)"

text \<open>
  \<^verbatim>\<open>numbers[0] > numbers[1] ? 1 : -1\<close>; a comparison with a missing element is false.
\<close>

definition lastMoveOf :: "real list \<Rightarrow> real" where
  "lastMoveOf numbers =
    (case numbers of n0 # n1 # rest \<Rightarrow> if n0 > n1 then 1 else -1 | _ \<Rightarrow> -1)"

definition createFeatureSetForML :: "core_state \<Rightarrow> outcome list \<Rightarrow> (string \<times> real) list option" where
  "createFeatureSetForML st history =
    (let numbers = numbersOf history in
     if length numbers < MIN_HISTORY st then None
     else let trendContext = getTrendContext history 20;
              rsiValue = calculateRSI numbers 14;
              macdLine = macdAt numbers;
              signalLine = calculateEMA (map (\<lambda>i. macdAt (drop i numbers)) [0..<length numbers]) 9;
              bollingerPct = bollingerPctOf numbers
          in Some
            [(''rsi_strength'', if truthyVal rsiValue then (nullToZero rsiValue - 50) / 50 else 0),
             (''rsi_is_overbought'', if truthyVal rsiValue \<and> nullToZero rsiValue > 70 then 1 else 0),
             (''rsi_is_oversold'', if truthyVal rsiValue \<and> nullToZero rsiValue < 30 then -1 else 0),
             (''macd_hist'', if macdLine \<noteq> 0 \<and> truthyVal signalLine
                             then macdLine - nullToZero signalLine else 0),
             (''trend_strength_score'',
                if fst trendContext = ''STRONG''
                then (if snd trendContext = ''BIG'' then 1 else -1) else 0),
             (''bollinger_pct_reversal'',
                if bollingerPct > 1 then bollingerPct - 1
                else (if bollingerPct < 0 then bollingerPct else 0)),
             (''last_move'', lastMoveOf numbers)])"

text \<open>One iteration of the \<^verbatim>\<open>for (const key in features)\<close> loop on (bigScore, smallScore).\<close>

definition scoreFeature :: "(string \<times> real) list \<Rightarrow> real \<times> real \<Rightarrow> string \<times> real \<Rightarrow> real \<times> real" where
  "scoreFeature weights scores kv =
    (case map_of weights (fst kv) of
       None \<Rightarrow> scores
     | Some weight \<Rightarrow>
         let featureValue = snd kv; bigScore = fst scores; smallScore = snd scores in
         if weight > 0 then
           (if featureValue > 0 then (bigScore + featureValue * weight, smallScore)
            else (bigScore, smallScore + \<bar>featureValue * weight\<bar>))
         else
           (if featureValue > 0 then (bigScore, smallScore + featureValue * \<bar>weight\<bar>)
            else (bigScore + \<bar>featureValue * \<bar>weight\<bar>\<bar>, smallScore)))"

definition analyzeUnifiedMLModel :: "core_state \<Rightarrow> (string \<times> real) list option \<Rightarrow> model_result option" where
  "analyzeUnifiedMLModel st features =
    (case features of
       None \<Rightarrow> None
     | Some fs \<Rightarrow>
         let scores = foldl (scoreFeature (mlFeatureWeights st)) (0, 0) fs;
             bigScore = fst scores; smallScore = snd scores;
             totalScore = bigScore + smallScore
         in if totalScore = 0 then None
            else Some \<lparr>prediction = (if bigScore > smallScore then ''BIG'' else ''SMALL''),
                       source = ''LearningML'',
                       confidence = \<bar>bigScore - smallScore\<bar> / totalScore\<rparr>)"

section \<open>advisory\_models.js\<close>

text \<open>
  The loop \<^verbatim>\<open>for (let i = rsiMAPeriod - 1; i >= 0; i--)\<close> collects one RSI per shifted
  window and returns \<^verbatim>\<open>null\<close> at the first missing one; \<open>those\<close> does the same.
  The moving average of the collected values is \<^verbatim>\<open>null\<close> only for
  \<open>rsiMAPeriod = 0\<close>, where \<^verbatim>\<open>currentRSI\<close> is \<^verbatim>\<open>undefined\<close> and both comparisons fail.
\<close>

definition analyzeRSITrend :: "outcome list \<Rightarrow> nat \<Rightarrow> nat \<Rightarrow> signal option" where
  "analyzeRSITrend history rsiPeriod rsiMAPeriod =
    (let numbers = numbersOf history in
     if length numbers < rsiPeriod + rsiMAPeriod then None
     else case those (map (\<lambda>i. calculateRSI (drop i numbers) rsiPeriod) (rev [0..<rsiMAPeriod])) of
            None \<Rightarrow> None
          | Some rsiValues \<Rightarrow>
              (case calculateSMA rsiValues rsiMAPeriod of
                 None \<Rightarrow> None
               | Some rsiMA \<Rightarrow>
                   let currentRSI = last rsiValues in
                   if currentRSI > rsiMA + 2 then Some \<lparr>prediction = ''BIG'', source = ''RSITrend''\<rparr>
                   else if currentRSI < rsiMA - 2 then Some \<lparr>prediction = ''SMALL'', source = ''RSITrend''\<rparr>
                   else None))"

text \<open>
  With \<open>period = 0\<close> the slice is empty, \<^verbatim>\<open>K\<close> is \<^verbatim>\<open>NaN\<close> and the source returns
  \<^verbatim>\<open>null\<close>: the first case below.
\<close>

definition analyzeStochastic :: "outcome list \<Rightarrow> nat \<Rightarrow> signal option" where
  "analyzeStochastic history period =
    (let numbers = take period (numbersOf history) in
     if length numbers < period then None
     else case numbers of
            [] \<Rightarrow> None
          | currentPrice # rest \<Rightarrow>
              let lowestLow = foldl min currentPrice rest;
                  highestHigh = foldl max currentPrice rest
              in if highestHigh = lowestLow then None
                 else let K = 100 * ((currentPrice - lowestLow) / (highestHigh - lowestLow)) in
                      if K > 85 then Some \<lparr>prediction = ''SMALL'', source = ''Stochastic''\<rparr>
                      else if K < 15 then Some \<lparr>prediction = ''BIG'', source = ''Stochastic''\<rparr>
                      else None)"

text \<open>\<^verbatim>\<open>String.prototype.endsWith\<close>.\<close>

definition endsWith :: "string \<Rightarrow> string \<Rightarrow> bool" where
  "endsWith s suf = (length suf \<le> length s \<and> drop (length s - length suf) s = suf)"

text \<open>\<^verbatim>\<open>Array.prototype.join('')\<close>: a \<^verbatim>\<open>null\<close> element contributes the empty string.\<close>

definition joinOutcomes :: "string option list \<Rightarrow> string" where
  "joinOutcomes outcomes = concat (map (\<lambda>v. case v of None \<Rightarrow> [] | Some w \<Rightarrow> w) outcomes)"

definition analyzeColorPatterns :: "outcome list \<Rightarrow> signal option" where
  "analyzeColorPatterns history =
    (let outcomes = rev (take 10 (map (\<lambda>p. getBigSmallFromNumber (actual p)) history)) in
     if length outcomes < 5 then None
     else let sequence = joinOutcomes outcomes in
       if endsWith sequence ''BBBB'' then Some \<lparr>prediction = ''BIG'', source = ''Pattern:StreakCont''\<rparr>
       else if endsWith sequence ''SSSS'' then Some \<lparr>prediction = ''SMALL'', source = ''Pattern:StreakCont''\<rparr>
       else if endsWith sequence ''BBBBB'' then Some \<lparr>prediction = ''SMALL'', source = ''Pattern:StreakBreak''\<rparr>
       else if endsWith sequence ''SSSSS'' then Some \<lparr>prediction = ''BIG'', source = ''Pattern:StreakBreak''\<rparr>
       else if endsWith sequence ''BSBS'' then Some \<lparr>prediction = ''BIG'', source = ''Pattern:AltBreak''\<rparr>
       else if endsWith sequence ''SBSB'' then Some \<lparr>prediction = ''SMALL'', source = ''Pattern:AltBreak''\<rparr>
       else if endsWith sequence ''BBSBB'' then Some \<lparr>prediction = ''BIG'', source = ''Pattern:Interrupt''\<rparr>
       else if endsWith sequence ''SSBSS'' then Some \<lparr>prediction = ''SMALL'', source = ''Pattern:Interrupt''\<rparr>
       else if endsWith sequence ''BSB'' then Some \<lparr>prediction = ''SMALL'', source = ''Pattern:DoubleTop''\<rparr>
       else if endsWith sequence ''SBS'' then Some \<lparr>prediction = ''BIG'', source = ''Pattern:DoubleBottom''\<rparr>
       else None)"

text \<open>
  Both deviations are non-\<^verbatim>\<open>null\<close> only for \<open>period \<ge> 2\<close>, so \<^verbatim>\<open>numbers[0]\<close> and
  \<^verbatim>\<open>numbers[1]\<close> exist where they are read.
\<close>

definition analyzeVolatilityBreakout :: "outcome list \<Rightarrow> nat \<Rightarrow> signal option" where
  "analyzeVolatilityBreakout history period =
    (let numbers = numbersOf history in
     if length numbers < period * 2 then None
     else let recentSlice = take period numbers;
              priorSlice = take period (drop period numbers)
          in case (calculateStdDev recentSlice period, calculateStdDev priorSlice period) of
               (Some recentVol, Some priorVol) \<Rightarrow>
                 if priorVol = 0 then None
                 else if recentVol > priorVol * 1.8 then
                   Some \<lparr>prediction = (if numbers ! 0 > numbers ! 1 then ''BIG'' else ''SMALL''),
                         source = ''Volatility''\<rparr>
                 else None
             | _ \<Rightarrow> None)"

definition analyzePriceAction :: "outcome list \<Rightarrow> signal option" where
  "analyzePriceAction history =
    (let numbers = take 5 (numbersOf history) in
     if length numbers < 5 then None
     else case numbers of
            p0 # p1 # p2 # p3 # rest \<Rightarrow>
              if p0 > p2 \<and> p1 > p3 then Some \<lparr>prediction = ''BIG'', source = ''PriceAction''\<rparr>
              else if p0 < p2 \<and> p1 < p3 then Some \<lparr>prediction = ''SMALL'', source = ''PriceAction''\<rparr>
              else None
          | _ \<Rightarrow> None)"

text \<open>
  A deviation of 0 means all values of the window equal their mean: the source computes
  \<^verbatim>\<open>0 / 0 = NaN\<close>, both comparisons fail and it returns \<^verbatim>\<open>null\<close>.
\<close>

definition analyzeMeanReversion :: "outcome list \<Rightarrow> nat \<Rightarrow> signal option" where
  "analyzeMeanReversion history period =
    (let numbers = take period (numbersOf history) in
     if length numbers < period then None
     else case (calculateSMA numbers period, calculateStdDev numbers period) of
            (Some sma, Some stdDev) \<Rightarrow>
              if stdDev = 0 then None
              else let currentPrice = numbers ! 0;
                       zScore = (currentPrice - sma) / stdDev
                   in if zScore > 1.5 then Some \<lparr>prediction = ''SMALL'', source = ''MeanReversion''\<rparr>
                      else if zScore < -1.5 then Some \<lparr>prediction = ''BIG'', source = ''MeanReversion''\<rparr>
                      else None
          | _ \<Rightarrow> None)"

definition advisoryModels :: "outcome list \<Rightarrow> signal option list" where
  "advisoryModels history =
    [analyzeRSITrend history 14 9,
     analyzeStochastic history 14,
     analyzeColorPatterns history,
     analyzeVolatilityBreakout history 20,
     analyzePriceAction history,
     analyzeMeanReversion history 20]"

definition runAdvisoryModels :: "outcome list \<Rightarrow> string \<Rightarrow> advisory_result" where
  "runAdvisoryModels history primaryPrediction =
    (let models = advisoryModels history;
         signals = map the (filter (\<lambda>m. m \<noteq> None) models);
         agreeing = length (filter (\<lambda>model. prediction model = primaryPrediction) signals);
         total = length signals
     in \<lparr>advisorySignals = signals,
         consensusScore = (if total > 0 then real agreeing / real total else 0.5),
         agreeingModels = agreeing,
         totalAdvisors = total\<rparr>)"

section \<open>state.js\<close>

definition evolveSystemParameters :: "core_state \<Rightarrow> real \<Rightarrow> core_state" where
  "evolveSystemParameters st globalAccuracy =
    (if globalAccuracy < TARGET_ACCURACY st - 0.02 then
       st\<lparr>BAD_TREND_THRESHOLD := min 0.48 (BAD_TREND_THRESHOLD st + EVOLUTION_RATE st)\<rparr>
     else if globalAccuracy > TARGET_ACCURACY st + 0.02 then
       st\<lparr>BAD_TREND_THRESHOLD := max 0.42 (BAD_TREND_THRESHOLD st - EVOLUTION_RATE st)\<rparr>
     else st)"

text \<open>\<^verbatim>\<open>history.filter(p => p.mlFeatures && p.status).slice(0, 50)\<close>; every status string is truthy.\<close>

definition recentTradesOf :: "outcome list \<Rightarrow> outcome list" where
  "recentTradesOf history =
    take 50 (filter (\<lambda>p. mlFeatures p \<noteq> None \<and> status p \<noteq> None) history)"

text \<open>One iteration of the inner loop \<^verbatim>\<open>for (const key in trade.mlFeatures)\<close>.\<close>

definition adjustFeature ::
  "(string \<times> real) list \<Rightarrow> bool \<Rightarrow> bool \<Rightarrow> (string \<Rightarrow> real) \<Rightarrow> string \<times> real \<Rightarrow> (string \<Rightarrow> real)" where
  "adjustFeature weights wasCorrect wasBigPrediction adjustments kv =
    (let learningRate = 0.01; key = fst kv in
     case map_of weights key of
       None \<Rightarrow> adjustments
     | Some w \<Rightarrow>
         let featureValue = snd kv;
             featureImpactIsBig = (featureValue * w > 0);
             wasFeatureAlignedWithPrediction =
               (if wasBigPrediction then featureImpactIsBig else \<not> featureImpactIsBig)
         in if wasCorrect \<and> wasFeatureAlignedWithPrediction
            then adjustments(key := adjustments key + learningRate)
            else if \<not> wasCorrect \<and> wasFeatureAlignedWithPrediction
            then adjustments(key := adjustments key - learningRate)
            else adjustments)"

text \<open>One iteration of the outer loop \<^verbatim>\<open>for (const trade of recentTrades)\<close>.\<close>

definition adjustTrade ::
  "(string \<times> real) list \<Rightarrow> (string \<Rightarrow> real) \<Rightarrow> outcome \<Rightarrow> (string \<Rightarrow> real)" where
  "adjustTrade weights adjustments trade =
    (let wasCorrect = (status trade = Some Win);
         wasBigPrediction = (lastPredictedOutcome trade = Some ''BIG'')
     in foldl (adjustFeature weights wasCorrect wasBigPrediction) adjustments
          (case mlFeatures trade of None \<Rightarrow> [] | Some fs \<Rightarrow> fs))"

definition evolveMLWeights :: "core_state \<Rightarrow> outcome list \<Rightarrow> core_state" where
  "evolveMLWeights st history =
    (let recentTrades = recentTradesOf history in
     if length recentTrades < 20 then st
     else let adjustments = foldl (adjustTrade (mlFeatureWeights st)) (\<lambda>key. 0) recentTrades
          in st\<lparr>mlFeatureWeights :=
                  map (\<lambda>(key, w). (key, max 0.1 (min 5.0 (w + adjustments key))))
                    (mlFeatureWeights st)\<rparr>)"

definition detectBadTrend :: "core_state \<Rightarrow> outcome list \<Rightarrow> bool" where
  "detectBadTrend st history =
    (let BAD_TREND_WINDOW = 30 in
     if length history < BAD_TREND_WINDOW then False
     else let recentHistory = take BAD_TREND_WINDOW history;
              wins = length (filter (\<lambda>p. status p = Some Win) recentHistory);
              losses = length (filter (\<lambda>p. status p = Some Loss) recentHistory)
          in if wins + losses < 15 then False
             else real wins / real (wins + losses) < BAD_TREND_THRESHOLD st)"

definition manageDefensiveMode :: "core_state \<Rightarrow> outcome list \<Rightarrow> core_state" where
  "manageDefensiveMode st history =
    (let st1 = (if detectBadTrend st history then st\<lparr>DEFENSIVE_MODE_ACTIVE := True\<rparr> else st);
         last3 = map status (take 3 history)
     in if DEFENSIVE_MODE_ACTIVE st1 \<and> length last3 = 3 \<and> list_all (\<lambda>s. s = Some Win) last3
        then st1\<lparr>DEFENSIVE_MODE_ACTIVE := False\<rparr> else st1)"

section \<open>market\_sentiment.js\<close>

text \<open>
  \<open>updateMarketSentiment env k st\<close> starts at the \<open>k\<close>-th random draw of the call and
  returns the index of the next unused draw with the new state.
\<close>

definition updateMarketSentiment :: "env \<Rightarrow> nat \<Rightarrow> core_state \<Rightarrow> core_state \<times> nat" where
  "updateMarketSentiment env k st =
    (let decayed = filter (\<lambda>event. \<bar>impact event\<bar> > 0.05)
                     (map (\<lambda>event. event\<lparr>impact := impact event * 0.90\<rparr>) (marketEvents st))
     in if rand env k < 0.05 then
          let isPositive = (rand env (k + 1) > 0.5);
              newEvent = \<lparr>event_type = (if isPositive then ''PositiveNews'' else ''NegativeNews''),
                          impact = (if isPositive then 1.0 else -1.0),
                          timestamp = now env\<rparr>
          in (st\<lparr>marketEvents := decayed @ [newEvent]\<rparr>, k + 2)
        else (st\<lparr>marketEvents := decayed\<rparr>, k + 1))"

definition getMarketSentimentFactor :: "core_state \<Rightarrow> real" where
  "getMarketSentimentFactor st =
    (if length (marketEvents st) = 0 then 0.0
     else let totalImpact = foldl (\<lambda>acc event. acc + impact event) 0 (marketEvents st)
          in max (-1) (min 1 totalImpact))"

section \<open>main.js: the orchestrator\<close>

text \<open>
  \<^verbatim>\<open>currentSharedHistory.filter(p => p && p.actual !== null && p.actualNumber !== undefined)\<close>;
  an entry of the array that is itself \<^verbatim>\<open>null\<close> or \<^verbatim>\<open>undefined\<close> is \<open>None\<close>.
\<close>

definition confirmedHistoryOf :: "outcome option list \<Rightarrow> outcome list" where
  "confirmedHistoryOf currentSharedHistory =
    map the (filter (\<lambda>p. case p of None \<Rightarrow> False
                               | Some r \<Rightarrow> actual r \<noteq> Null \<and> actualNumber r \<noteq> Undefined)
               currentSharedHistory)"

text \<open>Decimal digits of a number, for the template string of the source label.\<close>

fun digitsOf :: "nat \<Rightarrow> string" where
  "digitsOf n = (if n < 10 then [char_of (48 + n)]
                 else digitsOf (n div 10) @ [char_of (48 + n mod 10)])"

declare digitsOf.simps [simp del]

text \<open>
  The block \<^verbatim>\<open>if (confirmedHistory.length % 5 === 0) { ... }\<close>; the accuracy figure is
  used when it is truthy (present and not 0). Returns the index of the next random draw.
\<close>

definition evolutionStage :: "env \<Rightarrow> core_state \<Rightarrow> outcome list \<Rightarrow> stats \<Rightarrow> core_state \<times> nat" where
  "evolutionStage env st confirmedHistory sharedStatsPayload =
    (if length confirmedHistory mod 5 = 0 then
       let st1 = (if truthyVal (longTermGlobalAccuracy sharedStatsPayload)
                  then evolveSystemParameters st (nullToZero (longTermGlobalAccuracy sharedStatsPayload))
                  else st);
           st2 = evolveMLWeights st1 confirmedHistory
       in updateMarketSentiment env 0 st2
     else (st, 0))"

text \<open>
  \<^verbatim>\<open>lastResult\<close>: \<^verbatim>\<open>null\<close> unless \<^verbatim>\<open>lastActualOutcome\<close> is truthy. The comparison is
  \<^verbatim>\<open>===\<close>: a \<^verbatim>\<open>null\<close> class never equals a missing prediction.
\<close>

definition lastResultOf :: "stats \<Rightarrow> status option" where
  "lastResultOf sharedStatsPayload =
    (if truthy (lastActualOutcome sharedStatsPayload) then
       Some (if (case getBigSmallFromNumber (lastActualOutcome sharedStatsPayload) of
                   None \<Rightarrow> False
                 | Some c \<Rightarrow> stats_lastPredictedOutcome sharedStatsPayload = Some c)
             then Win else Loss)
     else None)"

text \<open>
  The state after the evolution block and the defensive-mode evaluation
  (\<^verbatim>\<open>if (lastResult) manageDefensiveMode(confirmedHistory)\<close>), with the index of the
  next random draw.
\<close>

definition cycleState :: "env \<Rightarrow> core_state \<Rightarrow> outcome list \<Rightarrow> stats \<Rightarrow> core_state \<times> nat" where
  "cycleState env st confirmedHistory sharedStatsPayload =
    (let stk = evolutionStage env st confirmedHistory sharedStatsPayload;
         lastResult = lastResultOf sharedStatsPayload
     in (if lastResult \<noteq> None then manageDefensiveMode (fst stk) confirmedHistory else fst stk,
         snd stk))"

definition ultraAIPredict :: "env \<Rightarrow> core_state \<Rightarrow> outcome option list \<Rightarrow> stats \<Rightarrow> core_state \<times> stats \<times> decision" where
  "ultraAIPredict env st currentSharedHistory sharedStatsPayload =
    (let confirmedHistory = confirmedHistoryOf currentSharedHistory in
     if length confirmedHistory < MIN_HISTORY st then
       (st, sharedStatsPayload,
        \<lparr>finalDecision = (if rand env 0 > 0.5 then ''BIG'' else ''SMALL''),
         finalConfidence = None,
         confidenceLevel = 1,
         overallLogic = None,
         decision_source = ''ConsensusCore-v60.1'',
         systemHealth = ''INSUFFICIENT_HISTORY'',
         decision_signals = None\<rparr>)
     else
       let stk = cycleState env st confirmedHistory sharedStatsPayload;
           st2 = fst stk;
           lastResult = lastResultOf sharedStatsPayload;
           features = createFeatureSetForML st2 confirmedHistory
       in case analyzeUnifiedMLModel st2 features of
            None \<Rightarrow>
              (st2, sharedStatsPayload,
               \<lparr>finalDecision = (if rand env (snd stk) > 0.5 then ''BIG'' else ''SMALL''),
                finalConfidence = None,
                confidenceLevel = 0,
                overallLogic = None,
                decision_source = ''ConsensusCore-v60.1'',
                systemHealth = ''MODEL_UNCERTAIN'',
                decision_signals = None\<rparr>)
          | Some primaryModel \<Rightarrow>
              let advisory = runAdvisoryModels confirmedHistory (prediction primaryModel);
                  conf0 = confidence primaryModel * (0.6 + (consensusScore advisory * 0.4));
                  conf = (if DEFENSIVE_MODE_ACTIVE st2 then conf0 * 0.7 else conf0);
                  level0 = (if conf > 0.55 then 1 else 0);
                  level = (if DEFENSIVE_MODE_ACTIVE st2 then 0 else level0);
                  output =
                    \<lparr>finalDecision = prediction primaryModel,
                     finalConfidence = Some conf,
                     confidenceLevel = level,
                     overallLogic = Some ''ConsensusCore-v60.1'',
                     decision_source = ''ML+'' @ digitsOf (agreeingModels advisory) @ ''/''
                                         @ digitsOf (totalAdvisors advisory) @ ''_Advisors'',
                     systemHealth = (if DEFENSIVE_MODE_ACTIVE st2 then ''DEFENSIVE_MODE'' else ''OK''),
                     decision_signals = Some (advisorySignals advisory)\<rparr>
              in (st2,
                  sharedStatsPayload
                    \<lparr>persisted := Some output,
                     stats_lastPredictedOutcome := Some (finalDecision output),
                     stats_mlFeatures := features,
                     stats_status := Some (case lastResult of Some s \<Rightarrow> s | None \<Rightarrow> Pending)\<rparr>,
                  output))"

section \<open>Reachable states\<close>

text \<open>
  The states the process can be in: the initial module state, and whatever the exported
  operations make of a reachable state.
\<close>

inductive reachable :: "core_state \<Rightarrow> bool" where
  reach_init: "reachable initial_state"
| reach_params: "reachable st \<Longrightarrow> reachable (evolveSystemParameters st a)"
| reach_weights: "reachable st \<Longrightarrow> reachable (evolveMLWeights st h)"
| reach_defensive: "reachable st \<Longrightarrow> reachable (manageDefensiveMode st h)"
| reach_sentiment: "reachable st \<Longrightarrow> reachable (fst (updateMarketSentiment env k st))"
| reach_predict: "reachable st \<Longrightarrow> reachable (fst (ultraAIPredict env st hs sp))"

section \<open>Runtime errors\<close>

text \<open>
  The source contains no \<^verbatim>\<open>throw\<close>. What can raise at run time is a property read on a
  missing value: \<^verbatim>\<open>data.length\<close> on an indicator argument that is \<^verbatim>\<open>undefined\<close> or
  \<^verbatim>\<open>null\<close>, and \<^verbatim>\<open>p.actualNumber\<close> or \<^verbatim>\<open>p.actual\<close> on a history entry that is
  \<^verbatim>\<open>undefined\<close> or \<^verbatim>\<open>null\<close>. Both are a \<^verbatim>\<open>TypeError\<close>.
\<close>

datatype js_error = TypeError





text \<open>
  \<^verbatim>\<open>history.map(p => p.actualNumber)\<close>, the first thing every detector does with its
  history (the pattern detector reads \<^verbatim>\<open>p.actual\<close>): the entries are visited in order,
  and the read raises on the first that is missing.
\<close>

fun recordsOf :: "outcome option list \<Rightarrow> js_error + outcome list" where
  "recordsOf [] = Inr []"
| "recordsOf (None # ps) = Inl TypeError"
| "recordsOf (Some p # ps) =
     (case recordsOf ps of Inl e \<Rightarrow> Inl e | Inr rs \<Rightarrow> Inr (p # rs))"



text \<open>
  The array that the orchestrator's filter
  \<^verbatim>\<open>p => p && p.actual !== null && p.actualNumber !== undefined\<close> returns, as an array
  of entries; \<open>confirmedHistoryOf\<close> is the list of its records.
\<close>

definition confirmedEntries :: "outcome option list \<Rightarrow> outcome option list" where
  "confirmedEntries currentSharedHistory =
    filter (\<lambda>p. case p of None \<Rightarrow> False
                      | Some r \<Rightarrow> actual r \<noteq> Null \<and> actualNumber r \<noteq> Undefined)
      currentSharedHistory"

section \<open>Predicates used in the statements\<close>

text \<open>The system parameters as the module creates them, the threshold within its band.\<close>

definition parameters_ok :: "core_state \<Rightarrow> bool" where
  "parameters_ok st \<longleftrightarrow>
     MIN_HISTORY st = 100 \<and> TARGET_ACCURACY st = 0.54 \<and> EVOLUTION_RATE st = 0.005 \<and>
     0.42 \<le> BAD_TREND_THRESHOLD st \<and> BAD_TREND_THRESHOLD st \<le> 0.48"

text \<open>Every entry of a weight vector lies in [0.1, 5.0].\<close>

definition weights_in_range :: "(string \<times> real) list \<Rightarrow> bool" where
  "weights_in_range ws \<longleftrightarrow> (\<forall>(key, w) \<in> set ws. 0.1 \<le> w \<and> w \<le> 5.0)"

text \<open>The three most recent records of a newest-first history all have status Win.\<close>

definition lastThreeWin :: "outcome list \<Rightarrow> bool" where
  "lastThreeWin history =
    (case history of
       a # b # c # rest \<Rightarrow> status a = Some Win \<and> status b = Some Win \<and> status c = Some Win
     | _ \<Rightarrow> False)"

text \<open>
  The statuses of the resolved records (Win, Loss or Cooldown; not Pending, not missing)
  of a newest-first history, newest first.
\<close>

definition resolvedStatuses :: "outcome list \<Rightarrow> status option list" where
  "resolvedStatuses history =
    filter (\<lambda>s. s = Some Win \<or> s = Some Loss \<or> s = Some Cooldown) (map status history)"

section \<open>Concrete inputs\<close>

text \<open>The record the request layer puts in front of the history for a round with result \<open>n\<close>.\<close>

definition roundRecord :: "int \<Rightarrow> outcome" where
  "roundRecord n =
    \<lparr>actual = Num n, actualNumber = Num n, status = Some Pending,
     mlFeatures = None, lastPredictedOutcome = None\<rparr>"

text \<open>A record of a round with a given status.\<close>

definition statusRecord :: "status \<Rightarrow> outcome" where
  "statusRecord s = (roundRecord 7)\<lparr>status := Some s\<rparr>"

text \<open>A won round predicted BIG that carries a feature snapshot.\<close>

definition snapshotRecord :: outcome where
  "snapshotRecord =
    (roundRecord 7)\<lparr>status := Some Win, mlFeatures := Some [(''rsi_strength'', 1)],
                     lastPredictedOutcome := Some ''BIG''\<rparr>"

text \<open>An environment whose random draws are all 0.7, and a fresh shared cycle memory.\<close>

definition quietEnv :: env where
  "quietEnv = \<lparr>rand = (\<lambda>k. 0.7), now = 0\<rparr>"

definition emptyStats :: stats where
  "emptyStats =
    \<lparr>lastActualOutcome = Undefined, stats_lastPredictedOutcome = None,
     longTermGlobalAccuracy = None, persisted = None,
     stats_mlFeatures = None, stats_status = None\<rparr>"

text \<open>
  A history of 100 rounds, newest first: 99 rounds with result 9, then a last round with
  result 0. And one of 100 rounds that all have result 5.
\<close>

definition fallingHistory :: "outcome list" where
  "fallingHistory = map roundRecord (0 # replicate 99 9)"

definition flatHistory :: "outcome list" where
  "flatHistory = replicate 100 (roundRecord 5)"

text \<open>
  A cycle in which defensive mode is active and the round just resolved was predicted
  right: the history as the request layer hands it over, the record of the newest round
  (still Pending) in front of 99 won rounds, and the shared cycle memory of the resolved
  prediction.
\<close>

definition defensiveState :: core_state where
  "defensiveState = initial_state\<lparr>DEFENSIVE_MODE_ACTIVE := True\<rparr>"

definition pendingThenWins :: "outcome list" where
  "pendingThenWins = statusRecord Pending # replicate 99 (statusRecord Win)"

definition resolvedStats :: stats where
  "resolvedStats =
    emptyStats\<lparr>lastActualOutcome := Num 7, stats_lastPredictedOutcome := Some ''BIG''\<rparr>"

section \<open>What each operation leaves unchanged\<close>

lemma evolveSystemParameters_fields:
  "MIN_HISTORY (evolveSystemParameters st a) = MIN_HISTORY st"
  "TARGET_ACCURACY (evolveSystemParameters st a) = TARGET_ACCURACY st"
  "EVOLUTION_RATE (evolveSystemParameters st a) = EVOLUTION_RATE st"
  "DEFENSIVE_MODE_ACTIVE (evolveSystemParameters st a) = DEFENSIVE_MODE_ACTIVE st"
  "mlFeatureWeights (evolveSystemParameters st a) = mlFeatureWeights st"
  "marketEvents (evolveSystemParameters st a) = marketEvents st"
  by (simp_all add: evolveSystemParameters_def)

lemma evolveMLWeights_fields:
  "MIN_HISTORY (evolveMLWeights st h) = MIN_HISTORY st"
  "TARGET_ACCURACY (evolveMLWeights st h) = TARGET_ACCURACY st"
  "EVOLUTION_RATE (evolveMLWeights st h) = EVOLUTION_RATE st"
  "BAD_TREND_THRESHOLD (evolveMLWeights st h) = BAD_TREND_THRESHOLD st"
  "DEFENSIVE_MODE_ACTIVE (evolveMLWeights st h) = DEFENSIVE_MODE_ACTIVE st"
  "marketEvents (evolveMLWeights st h) = marketEvents st"
  by (simp_all add: evolveMLWeights_def Let_def)

lemma manageDefensiveMode_fields:
  "MIN_HISTORY (manageDefensiveMode st h) = MIN_HISTORY st"
  "TARGET_ACCURACY (manageDefensiveMode st h) = TARGET_ACCURACY st"
  "EVOLUTION_RATE (manageDefensiveMode st h) = EVOLUTION_RATE st"
  "BAD_TREND_THRESHOLD (manageDefensiveMode st h) = BAD_TREND_THRESHOLD st"
  "mlFeatureWeights (manageDefensiveMode st h) = mlFeatureWeights st"
  "marketEvents (manageDefensiveMode st h) = marketEvents st"
  by (simp_all add: manageDefensiveMode_def Let_def)

lemma updateMarketSentiment_fields:
  "MIN_HISTORY (fst (updateMarketSentiment env k st)) = MIN_HISTORY st"
  "TARGET_ACCURACY (fst (updateMarketSentiment env k st)) = TARGET_ACCURACY st"
  "EVOLUTION_RATE (fst (updateMarketSentiment env k st)) = EVOLUTION_RATE st"
  "BAD_TREND_THRESHOLD (fst (updateMarketSentiment env k st)) = BAD_TREND_THRESHOLD st"
  "DEFENSIVE_MODE_ACTIVE (fst (updateMarketSentiment env k st)) = DEFENSIVE_MODE_ACTIVE st"
  "mlFeatureWeights (fst (updateMarketSentiment env k st)) = mlFeatureWeights st"
  by (simp_all add: updateMarketSentiment_def Let_def)

lemma evolutionStage_cases:
  "fst (evolutionStage env st c sp) = st \<or>
   (\<exists>st1. (st1 = st \<or> (\<exists>a. st1 = evolveSystemParameters st a)) \<and>
      fst (evolutionStage env st c sp) = fst (updateMarketSentiment env 0 (evolveMLWeights st1 c)))"
  by (auto simp: evolutionStage_def Let_def)

lemma cycleState_cases:
  "fst (cycleState env st c sp) = fst (evolutionStage env st c sp) \<or>
   fst (cycleState env st c sp) = manageDefensiveMode (fst (evolutionStage env st c sp)) c"
  by (simp add: cycleState_def Let_def)

lemma ultraAIPredict_state:
  "fst (ultraAIPredict env st hs sp) =
     (if length (confirmedHistoryOf hs) < MIN_HISTORY st then st
      else fst (cycleState env st (confirmedHistoryOf hs) sp))"
  by (simp add: ultraAIPredict_def Let_def split: option.splits)

text \<open>An invariant of the four state operations is an invariant of the orchestrator.\<close>

lemma evolutionStage_invariant:
  assumes "P st"
    and "\<And>st a. P st \<Longrightarrow> P (evolveSystemParameters st a)"
    and "\<And>st h. P st \<Longrightarrow> P (evolveMLWeights st h)"
    and "\<And>st env k. P st \<Longrightarrow> P (fst (updateMarketSentiment env k st))"
  shows "P (fst (evolutionStage env st c sp))"
  using assms by (simp add: evolutionStage_def Let_def)

lemma cycleState_invariant:
  assumes "P st"
    and "\<And>st a. P st \<Longrightarrow> P (evolveSystemParameters st a)"
    and "\<And>st h. P st \<Longrightarrow> P (evolveMLWeights st h)"
    and "\<And>st h. P st \<Longrightarrow> P (manageDefensiveMode st h)"
    and "\<And>st env k. P st \<Longrightarrow> P (fst (updateMarketSentiment env k st))"
  shows "P (fst (cycleState env st c sp))"
proof -
  have "P (fst (evolutionStage env st c sp))"
    using assms(1,2,3,5) by (rule evolutionStage_invariant)
  then show ?thesis using assms(4) by (simp add: cycleState_def Let_def)
qed

lemma reachable_invariant:
  assumes r: "reachable st"
    and init: "P initial_state"
    and params: "\<And>st a. P st \<Longrightarrow> P (evolveSystemParameters st a)"
    and weights: "\<And>st h. P st \<Longrightarrow> P (evolveMLWeights st h)"
    and defensive: "\<And>st h. P st \<Longrightarrow> P (manageDefensiveMode st h)"
    and sentiment: "\<And>st env k. P st \<Longrightarrow> P (fst (updateMarketSentiment env k st))"
  shows "P st"
  using r
proof (induction rule: reachable.induct)
  case reach_init
  show ?case by (rule init)
next
  case (reach_params st a)
  then show ?case by (simp add: params)
next
  case (reach_weights st h)
  then show ?case by (simp add: weights)
next
  case (reach_defensive st h)
  then show ?case by (simp add: defensive)
next
  case (reach_sentiment st env k)
  then show ?case by (simp add: sentiment)
next
  case (reach_predict st env hs sp)
  have "P (fst (cycleState env st (confirmedHistoryOf hs) sp))"
    using reach_predict.IH params weights defensive sentiment by (rule cycleState_invariant)
  with reach_predict.IH show ?case by (simp add: ultraAIPredict_state)
qed

lemma evolveSystemParameters_threshold:
  assumes "0.42 \<le> BAD_TREND_THRESHOLD st" "BAD_TREND_THRESHOLD st \<le> 0.48" "0 \<le> EVOLUTION_RATE st"
  shows "0.42 \<le> BAD_TREND_THRESHOLD (evolveSystemParameters st a) \<and>
         BAD_TREND_THRESHOLD (evolveSystemParameters st a) \<le> 0.48"
  using assms unfolding evolveSystemParameters_def min_def max_def by auto

lemma reachable_parameters: "reachable st \<Longrightarrow> parameters_ok st"
proof (erule reachable_invariant)
  show "parameters_ok initial_state"
    by (simp add: parameters_ok_def initial_state_def)
next
  fix st a assume "parameters_ok st"
  then show "parameters_ok (evolveSystemParameters st a)"
    using evolveSystemParameters_threshold [of st a]
    by (simp add: parameters_ok_def evolveSystemParameters_fields)
next
  fix st h assume "parameters_ok st"
  then show "parameters_ok (evolveMLWeights st h)"
    by (simp add: parameters_ok_def evolveMLWeights_fields)
next
  fix st h assume "parameters_ok st"
  then show "parameters_ok (manageDefensiveMode st h)"
    by (simp add: parameters_ok_def manageDefensiveMode_fields)
next
  fix st env k assume "parameters_ok st"
  then show "parameters_ok (fst (updateMarketSentiment env k st))"
    by (simp add: parameters_ok_def updateMarketSentiment_fields)
qed

text \<open>
  Claim C7. In every reachable state, an accuracy more than 0.02 below the target sets the
  bad-trend threshold to the old value plus the evolution step, capped at 0.48; the
  accuracy target - 0.03 strictly raises a threshold that is below 0.48; an accuracy more
  than 0.02 above the target sets it to the old value minus the step, floored at 0.42;
  and the threshold lies in [0.42, 0.48] before and after.
\<close>

theorem evolveSystemParameters_tuning:
  assumes "reachable st"
  shows "(a < TARGET_ACCURACY st - 0.02 \<longrightarrow>
            BAD_TREND_THRESHOLD (evolveSystemParameters st a)
              = min 0.48 (BAD_TREND_THRESHOLD st + EVOLUTION_RATE st)) \<and>
         (BAD_TREND_THRESHOLD st < 0.48 \<longrightarrow>
            BAD_TREND_THRESHOLD st
              < BAD_TREND_THRESHOLD (evolveSystemParameters st (TARGET_ACCURACY st - 0.03))) \<and>
         (a > TARGET_ACCURACY st + 0.02 \<longrightarrow>
            BAD_TREND_THRESHOLD (evolveSystemParameters st a)
              = max 0.42 (BAD_TREND_THRESHOLD st - EVOLUTION_RATE st)) \<and>
         0.42 \<le> BAD_TREND_THRESHOLD st \<and> BAD_TREND_THRESHOLD st \<le> 0.48 \<and>
         0.42 \<le> BAD_TREND_THRESHOLD (evolveSystemParameters st a) \<and>
         BAD_TREND_THRESHOLD (evolveSystemParameters st a) \<le> 0.48"
proof -
  from assms have ok: "parameters_ok st" by (rule reachable_parameters)
  then have range: "0.42 \<le> BAD_TREND_THRESHOLD st" "BAD_TREND_THRESHOLD st \<le> 0.48"
    and rate: "EVOLUTION_RATE st = 0.005" and target: "TARGET_ACCURACY st = 0.54"
    by (simp_all add: parameters_ok_def)
  have low: "a < TARGET_ACCURACY st - 0.02 \<longrightarrow>
      BAD_TREND_THRESHOLD (evolveSystemParameters st a)
        = min 0.48 (BAD_TREND_THRESHOLD st + EVOLUTION_RATE st)"
    by (simp add: evolveSystemParameters_def)
  have high: "a > TARGET_ACCURACY st + 0.02 \<longrightarrow>
      BAD_TREND_THRESHOLD (evolveSystemParameters st a)
        = max 0.42 (BAD_TREND_THRESHOLD st - EVOLUTION_RATE st)"
    by (simp add: evolveSystemParameters_def)
  have strict: "BAD_TREND_THRESHOLD st < 0.48 \<longrightarrow>
      BAD_TREND_THRESHOLD st
        < BAD_TREND_THRESHOLD (evolveSystemParameters st (TARGET_ACCURACY st - 0.03))"
    using rate by (simp add: evolveSystemParameters_def min_def)
  have after: "0.42 \<le> BAD_TREND_THRESHOLD (evolveSystemParameters st a) \<and>
         BAD_TREND_THRESHOLD (evolveSystemParameters st a) \<le> 0.48"
    using range rate by (intro evolveSystemParameters_threshold) simp_all
  from low high strict after range show ?thesis by blast
qed

theorem evolveSystemParameters_tuning_witness:
  "reachable initial_state \<and>
   (0.51::real) < TARGET_ACCURACY initial_state - 0.02 \<and>
   BAD_TREND_THRESHOLD (evolveSystemParameters initial_state 0.51) = 0.455 \<and>
   BAD_TREND_THRESHOLD initial_state < 0.48 \<and>
   BAD_TREND_THRESHOLD initial_state
     < BAD_TREND_THRESHOLD (evolveSystemParameters initial_state (TARGET_ACCURACY initial_state - 0.03)) \<and>
   (0.57::real) > TARGET_ACCURACY initial_state + 0.02 \<and>
   BAD_TREND_THRESHOLD (evolveSystemParameters initial_state 0.57) = 0.445"
proof -
  have r: "reachable initial_state" by (rule reach_init)
  have lo: "(0.51::real) < TARGET_ACCURACY initial_state - 0.02"
    by (simp add: initial_state_def)
  have hi: "(0.57::real) > TARGET_ACCURACY initial_state + 0.02"
    by (simp add: initial_state_def)
  have b: "BAD_TREND_THRESHOLD initial_state < 0.48"
    by (simp add: initial_state_def)
  have up: "min 0.48 (BAD_TREND_THRESHOLD initial_state + EVOLUTION_RATE initial_state) = 0.455"
    by (simp add: initial_state_def)
  have down: "max 0.42 (BAD_TREND_THRESHOLD initial_state - EVOLUTION_RATE initial_state) = 0.445"
    by (simp add: initial_state_def)
  from evolveSystemParameters_tuning [OF r, of "0.51"] lo b
  have e1: "BAD_TREND_THRESHOLD (evolveSystemParameters initial_state 0.51)
              = min 0.48 (BAD_TREND_THRESHOLD initial_state + EVOLUTION_RATE initial_state)"
    and e2: "BAD_TREND_THRESHOLD initial_state
       < BAD_TREND_THRESHOLD (evolveSystemParameters initial_state (TARGET_ACCURACY initial_state - 0.03))"
    by blast+
  from evolveSystemParameters_tuning [OF r, of "0.57"] hi
  have e3: "BAD_TREND_THRESHOLD (evolveSystemParameters initial_state 0.57)
              = max 0.42 (BAD_TREND_THRESHOLD initial_state - EVOLUTION_RATE initial_state)"
    by blast
  from r lo hi b e1 [unfolded up] e2 e3 [unfolded down] show ?thesis by blast
qed


section \<open>Weight evolution\<close>

lemma evolveMLWeights_skipped:
  "length (recentTradesOf h) < 20 \<Longrightarrow> evolveMLWeights st h = st"
  by (simp add: evolveMLWeights_def Let_def)

lemma clamp_bounds:
  "(0.1::real) \<le> max 0.1 (min 5.0 x) \<and> max 0.1 (min 5.0 x) \<le> (5.0::real)"
  by (simp add: max_def min_def)

lemma evolveMLWeights_clamped:
  assumes "20 \<le> length (recentTradesOf h)"
  shows "weights_in_range (mlFeatureWeights (evolveMLWeights st h))"
  unfolding weights_in_range_def
proof (clarify)
  fix key w
  assume "(key, w) \<in> set (mlFeatureWeights (evolveMLWeights st h))"
  with assms obtain x where "w = max 0.1 (min 5.0 x)"
    by (auto simp: evolveMLWeights_def Let_def)
  then show "0.1 \<le> w \<and> w \<le> 5.0"
    using clamp_bounds [of x] by simp
qed

text \<open>
  Claim C6. A weight-evolution pass over a history with fewer than 20 qualifying records
  (among the 50 most recent that carry both a feature snapshot and a status) changes
  nothing at all; a pass over at least 20 leaves every weight in [0.1, 5.0].
\<close>

theorem evolveMLWeights_pass:
  "(length (recentTradesOf h) < 20 \<longrightarrow> evolveMLWeights st h = st) \<and>
   (20 \<le> length (recentTradesOf h) \<longrightarrow>
      (\<forall>(key, w) \<in> set (mlFeatureWeights (evolveMLWeights st h)). 0.1 \<le> w \<and> w \<le> 5.0))"
  using evolveMLWeights_skipped [of h st] evolveMLWeights_clamped [of h st]
  by (simp add: weights_in_range_def)

lemma recentTradesOf_snapshots:
  "n \<le> 50 \<Longrightarrow> recentTradesOf (replicate n snapshotRecord) = replicate n snapshotRecord"
  by (simp add: recentTradesOf_def snapshotRecord_def roundRecord_def)

theorem evolveMLWeights_pass_witness:
  "length (recentTradesOf (replicate 19 snapshotRecord)) < 20 \<and>
   evolveMLWeights initial_state (replicate 19 snapshotRecord) = initial_state \<and>
   20 \<le> length (recentTradesOf (replicate 20 snapshotRecord)) \<and>
   weights_in_range (mlFeatureWeights (evolveMLWeights initial_state (replicate 20 snapshotRecord)))"
proof -
  have a: "length (recentTradesOf (replicate 19 snapshotRecord)) < 20"
    by (simp add: recentTradesOf_snapshots)
  have b: "20 \<le> length (recentTradesOf (replicate 20 snapshotRecord))"
    by (simp add: recentTradesOf_snapshots)
  from evolveMLWeights_pass [of "replicate 19 snapshotRecord" initial_state] a
  have c: "evolveMLWeights initial_state (replicate 19 snapshotRecord) = initial_state"
    by blast
  from evolveMLWeights_pass [of "replicate 20 snapshotRecord" initial_state] b
  have d: "weights_in_range (mlFeatureWeights (evolveMLWeights initial_state (replicate 20 snapshotRecord)))"
    unfolding weights_in_range_def by blast
  from a b c d show ?thesis by blast
qed

text \<open>
  The weight vector the module starts with is not within [0.1, 5.0]: three of its
  entries are negative.
\<close>

theorem initial_weights_out_of_range:
  "\<not> weights_in_range (mlFeatureWeights initial_state)"
  by (simp add: weights_in_range_def initial_state_def initial_weights_def)

text \<open>The invariant of the weight vector, and the operations that keep a vector in range.\<close>

lemma reachable_weights:
  assumes "reachable st"
  shows "mlFeatureWeights st = initial_weights \<or> weights_in_range (mlFeatureWeights st)"
  using assms
proof (rule reachable_invariant
    [where P = "\<lambda>s. mlFeatureWeights s = initial_weights \<or> weights_in_range (mlFeatureWeights s)"])
  show "mlFeatureWeights initial_state = initial_weights \<or> weights_in_range (mlFeatureWeights initial_state)"
    by (simp add: initial_state_def)
next
  fix st :: core_state and a
  assume "mlFeatureWeights st = initial_weights \<or> weights_in_range (mlFeatureWeights st)"
  then show "mlFeatureWeights (evolveSystemParameters st a) = initial_weights \<or>
             weights_in_range (mlFeatureWeights (evolveSystemParameters st a))"
    by (simp add: evolveSystemParameters_fields)
next
  fix st :: core_state and h
  assume inv: "mlFeatureWeights st = initial_weights \<or> weights_in_range (mlFeatureWeights st)"
  show "mlFeatureWeights (evolveMLWeights st h) = initial_weights \<or>
        weights_in_range (mlFeatureWeights (evolveMLWeights st h))"
  proof (cases "length (recentTradesOf h) < 20")
    case True
    with inv show ?thesis by (simp add: evolveMLWeights_skipped)
  next
    case False
    then show ?thesis by (simp add: evolveMLWeights_clamped)
  qed
next
  fix st :: core_state and h
  assume "mlFeatureWeights st = initial_weights \<or> weights_in_range (mlFeatureWeights st)"
  then show "mlFeatureWeights (manageDefensiveMode st h) = initial_weights \<or>
             weights_in_range (mlFeatureWeights (manageDefensiveMode st h))"
    by (simp add: manageDefensiveMode_fields)
next
  fix st :: core_state and env k
  assume "mlFeatureWeights st = initial_weights \<or> weights_in_range (mlFeatureWeights st)"
  then show "mlFeatureWeights (fst (updateMarketSentiment env k st)) = initial_weights \<or>
             weights_in_range (mlFeatureWeights (fst (updateMarketSentiment env k st)))"
    by (simp add: updateMarketSentiment_fields)
qed

lemma evolveMLWeights_keeps_range:
  assumes "weights_in_range (mlFeatureWeights st)"
  shows "weights_in_range (mlFeatureWeights (evolveMLWeights st h))"
proof (cases "length (recentTradesOf h) < 20")
  case True
  with assms show ?thesis by (simp add: evolveMLWeights_skipped)
next
  case False
  then show ?thesis by (simp add: evolveMLWeights_clamped)
qed

lemma ultraAIPredict_keeps_range:
  assumes "weights_in_range (mlFeatureWeights st)"
  shows "weights_in_range (mlFeatureWeights (fst (ultraAIPredict env st hs sp)))"
proof -
  have "weights_in_range (mlFeatureWeights (fst (cycleState env st (confirmedHistoryOf hs) sp)))"
    by (rule cycleState_invariant [where P = "\<lambda>s. weights_in_range (mlFeatureWeights s)"])
      (simp_all add: assms evolveSystemParameters_fields evolveMLWeights_keeps_range
         manageDefensiveMode_fields updateMarketSentiment_fields)
  with assms show ?thesis by (simp add: ultraAIPredict_state)
qed

text \<open>
  Claim C4, as amended. In every reachable state the weight vector is either still the
  initial one or has every entry in [0.1, 5.0]; and once every entry is in [0.1, 5.0],
  it stays so through every weight-evolution pass and every orchestrator call.
\<close>

theorem weights_initial_or_in_range:
  assumes "reachable st"
  shows "(mlFeatureWeights st = initial_weights \<or> weights_in_range (mlFeatureWeights st)) \<and>
         (weights_in_range (mlFeatureWeights st) \<longrightarrow>
            weights_in_range (mlFeatureWeights (evolveMLWeights st h)) \<and>
            weights_in_range (mlFeatureWeights (fst (ultraAIPredict env st hs sp))))"
  using reachable_weights [OF assms] evolveMLWeights_keeps_range [of st h]
    ultraAIPredict_keeps_range [of st env hs sp]
  by blast

theorem weights_initial_or_in_range_witness:
  "reachable (evolveMLWeights initial_state (replicate 20 snapshotRecord)) \<and>
   weights_in_range (mlFeatureWeights (evolveMLWeights initial_state (replicate 20 snapshotRecord))) \<and>
   weights_in_range (mlFeatureWeights
     (evolveMLWeights (evolveMLWeights initial_state (replicate 20 snapshotRecord)) [])) \<and>
   weights_in_range (mlFeatureWeights
     (fst (ultraAIPredict quietEnv (evolveMLWeights initial_state (replicate 20 snapshotRecord))
        (map Some flatHistory) emptyStats)))"
proof -
  let ?s = "evolveMLWeights initial_state (replicate 20 snapshotRecord)"
  have r: "reachable ?s"
    by (intro reach_weights reach_init)
  have i: "weights_in_range (mlFeatureWeights ?s)"
    by (rule evolveMLWeights_clamped) (simp add: recentTradesOf_snapshots)
  from weights_initial_or_in_range [OF r, of "[]" quietEnv "map Some flatHistory" emptyStats] i r
  show ?thesis by blast
qed

section \<open>The defensive-mode state machine\<close>

lemma last3_all_win:
  "(length (map status (take 3 h)) = 3 \<and> list_all (\<lambda>s. s = Some Win) (map status (take 3 h)))
     = lastThreeWin h"
proof (cases h)
  case Nil
  then show ?thesis by (simp add: lastThreeWin_def)
next
  case (Cons a h1)
  show ?thesis
  proof (cases h1)
    case Nil
    with Cons show ?thesis by (simp add: lastThreeWin_def)
  next
    case (Cons b h2)
    note c2 = this
    show ?thesis
    proof (cases h2)
      case Nil
      with \<open>h = a # h1\<close> c2 show ?thesis by (simp add: lastThreeWin_def)
    next
      case (Cons c h3)
      with \<open>h = a # h1\<close> c2 show ?thesis by (simp add: lastThreeWin_def)
    qed
  qed
qed

lemma manageDefensiveMode_flag:
  "DEFENSIVE_MODE_ACTIVE (manageDefensiveMode st h) =
     ((DEFENSIVE_MODE_ACTIVE st \<or> detectBadTrend st h) \<and> \<not> lastThreeWin h)"
  using last3_all_win [of h]
  by (auto simp: manageDefensiveMode_def Let_def)

lemma evolutionStage_flag:
  "DEFENSIVE_MODE_ACTIVE (fst (evolutionStage env st c sp)) = DEFENSIVE_MODE_ACTIVE st"
  by (simp add: evolutionStage_def Let_def updateMarketSentiment_fields
        evolveMLWeights_fields evolveSystemParameters_fields)

lemma ultraAIPredict_keeps_defensive:
  assumes "DEFENSIVE_MODE_ACTIVE st" "\<not> lastThreeWin (confirmedHistoryOf hs)"
  shows "DEFENSIVE_MODE_ACTIVE (fst (ultraAIPredict env st hs sp))"
  using assms
  by (simp add: ultraAIPredict_state cycleState_def Let_def manageDefensiveMode_flag evolutionStage_flag)

lemma not_lastThreeWin_head: "status p \<noteq> Some Win \<Longrightarrow> \<not> lastThreeWin (p # h)"
  by (simp add: lastThreeWin_def split: list.splits)

lemma pending_head_never_exits:
  assumes "DEFENSIVE_MODE_ACTIVE st" and "status p = Some Pending"
  shows "DEFENSIVE_MODE_ACTIVE (manageDefensiveMode st (p # h))"
  using assms by (simp add: manageDefensiveMode_flag not_lastThreeWin_head)

lemma confirmedHistoryOf_records:
  "\<forall>p \<in> set h. actual p \<noteq> Null \<and> actualNumber p \<noteq> Undefined \<Longrightarrow>
     confirmedHistoryOf (map Some h) = h"
  by (induction h) (simp_all add: confirmedHistoryOf_def)

lemma confirmedHistoryOf_pendingThenWins:
  "confirmedHistoryOf (map Some pendingThenWins) = pendingThenWins"
  by (rule confirmedHistoryOf_records)
    (auto simp: pendingThenWins_def statusRecord_def roundRecord_def)

lemma resolvedStatuses_pendingThenWins:
  "take 3 (resolvedStatuses pendingThenWins) = [Some Win, Some Win, Some Win]"
proof -
  have "resolvedStatuses pendingThenWins = replicate 99 (Some Win)"
    by (simp add: resolvedStatuses_def pendingThenWins_def statusRecord_def roundRecord_def)
  then show ?thesis by (simp add: eval_nat_numeral)
qed

text \<open>
  Claim C2, evaluated on the code. The exit test reads the first three records of the
  history, and the request layer puts the Pending record of the newest round in front
  before every call. With defensive mode active and 99 won rounds behind that record,
  the three most recent resolved statuses are all Win, and defensive mode is still active
  after the evaluation, and after a whole orchestrator call that passes the history gate
  and runs the evaluation.
\<close>

theorem manageDefensiveMode_pending_head:
  "DEFENSIVE_MODE_ACTIVE defensiveState \<and>
   take 3 (resolvedStatuses pendingThenWins) = [Some Win, Some Win, Some Win] \<and>
   DEFENSIVE_MODE_ACTIVE (manageDefensiveMode defensiveState pendingThenWins) \<and>
   MIN_HISTORY defensiveState \<le> length (confirmedHistoryOf (map Some pendingThenWins)) \<and>
   lastResultOf resolvedStats = Some Win \<and>
   DEFENSIVE_MODE_ACTIVE
     (fst (ultraAIPredict quietEnv defensiveState (map Some pendingThenWins) resolvedStats))"
proof -
  have a: "DEFENSIVE_MODE_ACTIVE defensiveState" by (simp add: defensiveState_def)
  have p: "status (statusRecord Pending) = Some Pending"
    by (simp add: statusRecord_def)
  have m: "DEFENSIVE_MODE_ACTIVE (manageDefensiveMode defensiveState pendingThenWins)"
    unfolding pendingThenWins_def by (rule pending_head_never_exits [OF a p])
  have g: "MIN_HISTORY defensiveState \<le> length (confirmedHistoryOf (map Some pendingThenWins))"
    unfolding confirmedHistoryOf_pendingThenWins
    by (simp add: pendingThenWins_def defensiveState_def initial_state_def)
  have l: "lastResultOf resolvedStats = Some Win"
    by (simp add: lastResultOf_def resolvedStats_def emptyStats_def)
  have n: "\<not> lastThreeWin (confirmedHistoryOf (map Some pendingThenWins))"
    unfolding confirmedHistoryOf_pendingThenWins
    unfolding pendingThenWins_def
    by (rule not_lastThreeWin_head) (simp add: statusRecord_def)
  have u: "DEFENSIVE_MODE_ACTIVE
     (fst (ultraAIPredict quietEnv defensiveState (map Some pendingThenWins) resolvedStats))"
    by (rule ultraAIPredict_keeps_defensive [OF a n])
  from a resolvedStatuses_pendingThenWins m g l u show ?thesis by blast
qed


section \<open>The orchestrator below the history gate\<close>

text \<open>
  Claim C1, as amended. In a reachable state, a call whose confirmed history is shorter
  than 100 returns the state and the shared cycle memory unchanged, health
  INSUFFICIENT\_HISTORY, the class BIG if the first random draw exceeds 0.5 and SMALL
  otherwise, no numeric confidence and no advisory signals.
\<close>

theorem ultraAIPredict_insufficient_history:
  assumes "reachable st" and "length (confirmedHistoryOf hs) < 100"
  shows "ultraAIPredict env st hs sp =
           (st, sp, snd (snd (ultraAIPredict env st hs sp))) \<and>
         systemHealth (snd (snd (ultraAIPredict env st hs sp))) = ''INSUFFICIENT_HISTORY'' \<and>
         finalDecision (snd (snd (ultraAIPredict env st hs sp)))
           = (if rand env 0 > 0.5 then ''BIG'' else ''SMALL'') \<and>
         finalConfidence (snd (snd (ultraAIPredict env st hs sp))) = None \<and>
         decision_signals (snd (snd (ultraAIPredict env st hs sp))) = None"
proof -
  from assms(1) have "MIN_HISTORY st = 100"
    using reachable_parameters by (simp add: parameters_ok_def)
  with assms(2) show ?thesis by (simp add: ultraAIPredict_def Let_def)
qed

text \<open>
  On the empty history the decision carries confidence level 1 and no confidence value.
\<close>

theorem ultraAIPredict_insufficient_counterexample:
  "length (confirmedHistoryOf []) < MIN_HISTORY initial_state \<and>
   confidenceLevel (snd (snd (ultraAIPredict quietEnv initial_state [] emptyStats))) = 1 \<and>
   finalConfidence (snd (snd (ultraAIPredict quietEnv initial_state [] emptyStats))) = None"
  by (simp add: ultraAIPredict_def confirmedHistoryOf_def initial_state_def Let_def)

theorem ultraAIPredict_insufficient_history_witness:
  "reachable initial_state \<and> length (confirmedHistoryOf [Some (roundRecord 3), None]) < 100 \<and>
   ultraAIPredict quietEnv initial_state [Some (roundRecord 3), None] emptyStats
     = (initial_state, emptyStats,
        snd (snd (ultraAIPredict quietEnv initial_state [Some (roundRecord 3), None] emptyStats))) \<and>
   systemHealth (snd (snd (ultraAIPredict quietEnv initial_state [Some (roundRecord 3), None] emptyStats)))
     = ''INSUFFICIENT_HISTORY'' \<and>
   finalDecision (snd (snd (ultraAIPredict quietEnv initial_state [Some (roundRecord 3), None] emptyStats)))
     = ''BIG''"
proof -
  have r: "reachable initial_state" by (rule reach_init)
  have l: "length (confirmedHistoryOf [Some (roundRecord 3), None]) < 100"
    by (simp add: confirmedHistoryOf_def)
  have d: "(if rand quietEnv 0 > 0.5 then ''BIG'' else ''SMALL'') = ''BIG''"
    by (simp add: quietEnv_def)
  from ultraAIPredict_insufficient_history [OF r l, of quietEnv emptyStats] r l d
  show ?thesis by simp
qed


section \<open>The pattern detector\<close>

lemma getBigSmallFromNumber_words:
  "getBigSmallFromNumber v = None \<or> getBigSmallFromNumber v = Some ''SMALL'' \<or>
   getBigSmallFromNumber v = Some ''BIG''"
  by (cases v) simp_all

lemma joinOutcomes_append:
  "joinOutcomes (xs @ ys) = joinOutcomes xs @ joinOutcomes ys"
  by (simp add: joinOutcomes_def)

lemma joinOutcomes_last:
  assumes "\<forall>v \<in> set os. v = None \<or> v = Some ''SMALL'' \<or> v = Some ''BIG''"
  shows "joinOutcomes os = [] \<or> last (joinOutcomes os) = CHR ''L'' \<or>
         last (joinOutcomes os) = CHR ''G''"
  using assms
proof (induction os rule: rev_induct)
  case Nil
  show ?case by (simp add: joinOutcomes_def)
next
  case (snoc v os)
  from snoc.prems have v: "v = None \<or> v = Some ''SMALL'' \<or> v = Some ''BIG''" by simp
  from snoc have ih: "joinOutcomes os = [] \<or> last (joinOutcomes os) = CHR ''L'' \<or>
         last (joinOutcomes os) = CHR ''G''" by simp
  have one: "joinOutcomes [v] = (case v of None \<Rightarrow> [] | Some w \<Rightarrow> w)"
    by (simp add: joinOutcomes_def)
  from v ih show ?case
    by (auto simp: joinOutcomes_append one)
qed

lemma endsWith_last:
  assumes "endsWith s p" and "p \<noteq> []"
  shows "s \<noteq> [] \<and> last s = last p"
proof -
  from assms(1) have d: "drop (length s - length p) s = p"
    by (simp add: endsWith_def)
  have "s = take (length s - length p) s @ p"
    using d append_take_drop_id [of "length s - length p" s] by simp
  with assms(2) show ?thesis
    by (metis append_is_Nil_conv last_appendR)
qed

lemma analyzeColorPatterns_sequence:
  "joinOutcomes (rev (take 10 (map (\<lambda>p. getBigSmallFromNumber (actual p)) h))) = [] \<or>
   last (joinOutcomes (rev (take 10 (map (\<lambda>p. getBigSmallFromNumber (actual p)) h)))) = CHR ''L'' \<or>
   last (joinOutcomes (rev (take 10 (map (\<lambda>p. getBigSmallFromNumber (actual p)) h)))) = CHR ''G''"
  for h :: "outcome list"
proof (rule joinOutcomes_last, rule ballI)
  fix v
  assume "v \<in> set (rev (take 10 (map (\<lambda>p. getBigSmallFromNumber (actual p)) h)))"
  then have "v \<in> set (map (\<lambda>p. getBigSmallFromNumber (actual p)) h)"
    by (auto dest: in_set_takeD)
  then obtain p :: outcome where "v = getBigSmallFromNumber (actual p)" by auto
  then show "v = None \<or> v = Some ''SMALL'' \<or> v = Some ''BIG''"
    using getBigSmallFromNumber_words [of "actual p"] by simp
qed

lemma no_pattern_ends:
  assumes "s = [] \<or> last s = CHR ''L'' \<or> last s = CHR ''G''"
    and "p \<noteq> []" and "last p = CHR ''B'' \<or> last p = CHR ''S''"
  shows "\<not> endsWith s p"
proof
  assume "endsWith s p"
  from endsWith_last [OF this assms(2)] have "s \<noteq> []" and "last s = last p" by simp_all
  with assms(1,3) show False by auto
qed

lemma analyzeColorPatterns_never_votes: "analyzeColorPatterns h = None"
proof -
  let ?s = "joinOutcomes (rev (take 10 (map (\<lambda>p. getBigSmallFromNumber (actual p)) h)))"
  note s = analyzeColorPatterns_sequence [of h]
  have "\<not> endsWith ?s ''BBBB''" "\<not> endsWith ?s ''SSSS''" "\<not> endsWith ?s ''BBBBB''"
    "\<not> endsWith ?s ''SSSSS''" "\<not> endsWith ?s ''BSBS''" "\<not> endsWith ?s ''SBSB''"
    "\<not> endsWith ?s ''BBSBB''" "\<not> endsWith ?s ''SSBSS''" "\<not> endsWith ?s ''BSB''"
    "\<not> endsWith ?s ''SBS''"
    by (rule no_pattern_ends [OF s]; simp)+
  then show ?thesis by (simp add: analyzeColorPatterns_def Let_def)
qed

text \<open>
  Claim C3, evaluated on the code. The detector joins the class words, not letters: for
  the chronological outcomes LOW, HIGH, HIGH, HIGH, HIGH the sequence it matches against
  is SMALLBIGBIGBIGBIG, and it abstains; for five HIGH outcomes it abstains as well.
\<close>

theorem analyzeColorPatterns_streaks:
  "joinOutcomes (rev (take 10 (map (\<lambda>p. getBigSmallFromNumber (actual p))
      (map roundRecord [5, 5, 5, 5, 0])))) = ''SMALLBIGBIGBIGBIG'' \<and>
   analyzeColorPatterns (map roundRecord [5, 5, 5, 5, 0]) = None \<and>
   analyzeColorPatterns (map roundRecord [5, 5, 5, 5, 5]) = None"
  by (simp add: analyzeColorPatterns_def joinOutcomes_def roundRecord_def endsWith_def Let_def)

section \<open>The RSI features\<close>

lemma numbersOf_roundRecords: "numbersOf (map roundRecord xs) = map real_of_int xs"
  by (induction xs) (simp_all add: numbersOf_def roundRecord_def)

lemma createFeatureSetForML_rsi_strength:
  assumes "MIN_HISTORY st \<le> length (numbersOf h)"
  shows "map_option (\<lambda>fs. map_of fs ''rsi_strength'') (createFeatureSetForML st h)
           = Some (Some (if truthyVal (calculateRSI (numbersOf h) 14)
                         then (nullToZero (calculateRSI (numbersOf h) 14) - 50) / 50 else 0))"
  using assms by (simp add: createFeatureSetForML_def Let_def)

lemma rsi_strength_formula:
  assumes "MIN_HISTORY st \<le> length (numbersOf h)"
    and "calculateRSI (numbersOf h) 14 = Some r" and "r \<noteq> 0"
  shows "map_option (\<lambda>fs. map_of fs ''rsi_strength'') (createFeatureSetForML st h)
           = Some (Some ((r - 50) / 50))"
  using assms by (simp add: createFeatureSetForML_rsi_strength)

lemma calculateRSI_falling: "calculateRSI (0 # replicate 99 9) 14 = Some 0"
  by (simp add: calculateRSI_def rsiChanges_def Let_def eval_nat_numeral)

lemma numbersOf_fallingHistory: "numbersOf fallingHistory = 0 # replicate 99 9"
  unfolding fallingHistory_def numbersOf_roundRecords by simp

text \<open>
  Claim C8, evaluated on the code. On a history of 100 rounds whose only change is a
  fall, RSI(14) is available and equals 0, and the feature \<open>rsi_strength\<close> is 0, not
  (0 - 50) / 50 = -1.
\<close>

theorem rsi_strength_at_zero:
  "MIN_HISTORY initial_state \<le> length (numbersOf fallingHistory) \<and>
   calculateRSI (numbersOf fallingHistory) 14 = Some 0 \<and>
   map_option (\<lambda>fs. map_of fs ''rsi_strength'')
     (createFeatureSetForML initial_state fallingHistory) = Some (Some 0)"
proof -
  have l: "MIN_HISTORY initial_state \<le> length (numbersOf fallingHistory)"
    by (simp add: numbersOf_fallingHistory initial_state_def)
  have r: "calculateRSI (numbersOf fallingHistory) 14 = Some 0"
    by (simp only: numbersOf_fallingHistory calculateRSI_falling)
  have f: "map_option (\<lambda>fs. map_of fs ''rsi_strength'')
     (createFeatureSetForML initial_state fallingHistory) = Some (Some 0)"
    using createFeatureSetForML_rsi_strength [OF l] unfolding r by simp
  from l r f show ?thesis by blast
qed


section \<open>Indicators on a constant series\<close>

lemma foldl_add_replicate:
  "foldl (\<lambda>a b. a + b) s (replicate n (c::real)) = s + real n * c"
  by (induction n arbitrary: s) (simp_all add: algebra_simps)

lemma calculateSMA_replicate:
  "0 < p \<Longrightarrow> p \<le> n \<Longrightarrow> calculateSMA (replicate n c) p = Some c"
  by (simp add: calculateSMA_def Let_def foldl_add_replicate min_absorb2)

lemma foldl_ema_replicate:
  "foldl (\<lambda>ema x. (x * k) + (ema * (1 - k))) c (replicate n (c::real)) = c"
  by (induction n) (simp_all add: algebra_simps)

lemma calculateEMA_replicate:
  "0 < p \<Longrightarrow> p \<le> n \<Longrightarrow> calculateEMA (replicate n c) p = Some c"
  by (simp add: calculateEMA_def Let_def calculateSMA_replicate foldl_ema_replicate min_absorb2)

lemma foldl_variance_replicate:
  "foldl (\<lambda>acc val. acc + (val - c) ^ 2) s (replicate n (c::real)) = s"
  by (induction n arbitrary: s) simp_all

lemma calculateStdDev_replicate:
  "2 \<le> p \<Longrightarrow> p \<le> n \<Longrightarrow> calculateStdDev (replicate n c) p = Some 0"
  by (simp add: calculateStdDev_def Let_def calculateSMA_replicate foldl_variance_replicate min_absorb2)

lemma rsiChanges_replicate: "rsiChanges (replicate n c) = replicate (n - 1) 0"
proof (induction n)
  case 0
  show ?case by (simp add: rsiChanges_def)
next
  case (Suc n)
  then show ?case by (cases n) (simp_all add: rsiChanges_def)
qed

lemma foldl_gains_zero:
  "foldl (\<lambda>g change. if change > 0 then g + change else g) s (replicate n (0::real)) = s"
  by (induction n arbitrary: s) simp_all

lemma foldl_losses_zero:
  "foldl (\<lambda>l change. if change > 0 then l else l + \<bar>change\<bar>) s (replicate n (0::real)) = s"
  by (induction n arbitrary: s) simp_all

lemma foldl_smooth_zero:
  "foldl (\<lambda>(avgGain, avgLoss) change.
       ((avgGain * q + (if change > 0 then change else 0)) / d,
        (avgLoss * q + (if change < 0 then \<bar>change\<bar> else 0)) / d))
     (0, 0) (replicate n (0::real)) = (0, 0)"
  by (induction n) simp_all

lemma calculateRSI_replicate:
  "p + 1 \<le> n \<Longrightarrow> calculateRSI (replicate n c) p = Some 100"
  by (simp add: calculateRSI_def Let_def rsiChanges_replicate foldl_gains_zero
        foldl_losses_zero foldl_smooth_zero)

section \<open>The flat history\<close>

lemma numbersOf_flatHistory: "numbersOf flatHistory = replicate 100 5"
  by (simp add: numbersOf_def flatHistory_def roundRecord_def)

lemma getTrendContext_flat: "getTrendContext flatHistory 20 = (''RANGING'', ''NONE'')"
  by (simp add: getTrendContext_def numbersOf_flatHistory calculateEMA_replicate)

lemma macdAt_flat: "macdAt (numbersOf flatHistory) = 0"
  by (simp add: macdAt_def numbersOf_flatHistory calculateEMA_replicate)

lemma bollingerPctOf_flat: "bollingerPctOf (numbersOf flatHistory) = 0"
  by (simp add: bollingerPctOf_def numbersOf_flatHistory calculateStdDev_replicate calculateSMA_replicate)

lemma lastMoveOf_replicate: "lastMoveOf (replicate (Suc (Suc n)) c) = -1"
  by (simp add: lastMoveOf_def)

lemma lastMoveOf_flat: "lastMoveOf (numbersOf flatHistory) = -1"
proof -
  have "(100::nat) = Suc (Suc 98)" by simp
  then show ?thesis by (simp only: numbersOf_flatHistory lastMoveOf_replicate)
qed

lemma createFeatureSetForML_without_macd:
  assumes "MIN_HISTORY st \<le> length (numbersOf h)" and "macdAt (numbersOf h) = 0"
  shows "createFeatureSetForML st h = Some
    [(''rsi_strength'', if truthyVal (calculateRSI (numbersOf h) 14)
                        then (nullToZero (calculateRSI (numbersOf h) 14) - 50) / 50 else 0),
     (''rsi_is_overbought'', if truthyVal (calculateRSI (numbersOf h) 14) \<and>
                                nullToZero (calculateRSI (numbersOf h) 14) > 70 then 1 else 0),
     (''rsi_is_oversold'', if truthyVal (calculateRSI (numbersOf h) 14) \<and>
                              nullToZero (calculateRSI (numbersOf h) 14) < 30 then -1 else 0),
     (''macd_hist'', 0),
     (''trend_strength_score'',
        if fst (getTrendContext h 20) = ''STRONG''
        then (if snd (getTrendContext h 20) = ''BIG'' then 1 else -1) else 0),
     (''bollinger_pct_reversal'',
        if bollingerPctOf (numbersOf h) > 1 then bollingerPctOf (numbersOf h) - 1
        else (if bollingerPctOf (numbersOf h) < 0 then bollingerPctOf (numbersOf h) else 0)),
     (''last_move'', lastMoveOf (numbersOf h))]"
  using assms by (simp add: createFeatureSetForML_def Let_def)

lemma createFeatureSetForML_flat:
  assumes "MIN_HISTORY st = 100"
  shows "createFeatureSetForML st flatHistory = Some
    [(''rsi_strength'', 1), (''rsi_is_overbought'', 1), (''rsi_is_oversold'', 0),
     (''macd_hist'', 0), (''trend_strength_score'', 0), (''bollinger_pct_reversal'', 0),
     (''last_move'', -1)]"
proof -
  have l: "MIN_HISTORY st \<le> length (numbersOf flatHistory)"
    using assms by (simp add: numbersOf_flatHistory)
  have r: "calculateRSI (numbersOf flatHistory) 14 = Some 100"
    by (simp add: numbersOf_flatHistory calculateRSI_replicate)
  show ?thesis
    unfolding createFeatureSetForML_without_macd [OF l macdAt_flat] r
      getTrendContext_flat bollingerPctOf_flat lastMoveOf_flat
    by simp
qed

lemma analyzeUnifiedMLModel_flat:
  assumes "mlFeatureWeights st = initial_weights"
  shows "analyzeUnifiedMLModel st (Some
    [(''rsi_strength'', 1), (''rsi_is_overbought'', 1), (''rsi_is_oversold'', 0),
     (''macd_hist'', 0), (''trend_strength_score'', 0), (''bollinger_pct_reversal'', 0),
     (''last_move'', -1)])
    = Some \<lparr>prediction = ''SMALL'', source = ''LearningML'', confidence = 1 / 4\<rparr>"
  by (simp add: analyzeUnifiedMLModel_def assms initial_weights_def scoreFeature_def Let_def)

section \<open>The advisory ensemble on the flat history\<close>

lemma those_const: "those (map (\<lambda>i. Some c) xs) = Some (replicate (length xs) c)"
  by (induction xs) simp_all

lemma analyzeRSITrend_flat: "analyzeRSITrend flatHistory 14 9 = None"
proof -
  have "map (\<lambda>i. calculateRSI (drop i (replicate 100 5)) 14) (rev [0..<9])
          = map (\<lambda>i. Some 100) (rev [0..<9])"
    by (rule map_cong) (auto simp: calculateRSI_replicate)
  then have "those (map (\<lambda>i. calculateRSI (drop i (replicate 100 5)) 14) (rev [0..<9]))
          = Some (replicate 9 100)"
    by (simp only: those_const) simp
  moreover have "last (replicate 9 (100::real)) = 100" by simp
  ultimately show ?thesis
    by (simp add: analyzeRSITrend_def numbersOf_flatHistory Let_def calculateSMA_replicate
          del: drop_replicate)
qed

lemma foldl_min_replicate: "foldl min c (replicate n (c::real)) = c"
  by (induction n) simp_all

lemma foldl_max_replicate: "foldl max c (replicate n (c::real)) = c"
  by (induction n) simp_all

lemma analyzeStochastic_flat: "analyzeStochastic flatHistory 14 = None"
proof -
  have "take 14 (replicate 100 (5::real)) = 5 # replicate 13 5"
    by (simp add: eval_nat_numeral)
  then show ?thesis
    by (simp add: analyzeStochastic_def numbersOf_flatHistory Let_def
          foldl_min_replicate foldl_max_replicate del: take_replicate)
qed

lemma analyzeVolatilityBreakout_flat: "analyzeVolatilityBreakout flatHistory 20 = None"
  by (simp add: analyzeVolatilityBreakout_def numbersOf_flatHistory Let_def calculateStdDev_replicate)

lemma analyzePriceAction_flat: "analyzePriceAction flatHistory = None"
proof -
  have "take 5 (replicate 100 (5::real)) = [5, 5, 5, 5, 5]"
    by (simp add: eval_nat_numeral)
  then show ?thesis
    by (simp add: analyzePriceAction_def numbersOf_flatHistory Let_def del: take_replicate)
qed

lemma analyzeMeanReversion_flat: "analyzeMeanReversion flatHistory 20 = None"
  by (simp add: analyzeMeanReversion_def numbersOf_flatHistory Let_def
        calculateStdDev_replicate calculateSMA_replicate)

lemma runAdvisoryModels_flat:
  "runAdvisoryModels flatHistory p =
     \<lparr>advisorySignals = [], consensusScore = 0.5, agreeingModels = 0, totalAdvisors = 0\<rparr>"
  by (simp add: runAdvisoryModels_def advisoryModels_def Let_def analyzeRSITrend_flat
        analyzeStochastic_flat analyzeColorPatterns_never_votes analyzeVolatilityBreakout_flat
        analyzePriceAction_flat analyzeMeanReversion_flat)

section \<open>One cycle on the flat history\<close>

lemma confirmedHistoryOf_flat: "confirmedHistoryOf (map Some flatHistory) = flatHistory"
  by (simp add: confirmedHistoryOf_def flatHistory_def roundRecord_def)

lemma recentTradesOf_flat: "recentTradesOf flatHistory = []"
  by (simp add: recentTradesOf_def flatHistory_def roundRecord_def)

lemma cycleState_flat:
  assumes "marketEvents st = []"
  shows "fst (cycleState quietEnv st flatHistory emptyStats) = st"
  using assms
  by (simp add: cycleState_def evolutionStage_def lastResultOf_def emptyStats_def Let_def
        evolveMLWeights_def recentTradesOf_flat updateMarketSentiment_def quietEnv_def)

section \<open>The consensus stage\<close>

lemma ultraAIPredict_consensus:
  assumes gate: "MIN_HISTORY st \<le> length (confirmedHistoryOf hs)"
    and primary: "analyzeUnifiedMLModel (fst (cycleState env st (confirmedHistoryOf hs) sp))
        (createFeatureSetForML (fst (cycleState env st (confirmedHistoryOf hs) sp))
           (confirmedHistoryOf hs)) = Some pm"
  shows "finalDecision (snd (snd (ultraAIPredict env st hs sp))) = prediction pm"
    and "finalConfidence (snd (snd (ultraAIPredict env st hs sp))) =
          Some (if DEFENSIVE_MODE_ACTIVE (fst (cycleState env st (confirmedHistoryOf hs) sp))
                then confidence pm *
                     (0.6 + (consensusScore (runAdvisoryModels (confirmedHistoryOf hs) (prediction pm)) * 0.4))
                     * 0.7
                else confidence pm *
                     (0.6 + (consensusScore (runAdvisoryModels (confirmedHistoryOf hs) (prediction pm)) * 0.4)))"
    and "confidenceLevel (snd (snd (ultraAIPredict env st hs sp))) =
          (if DEFENSIVE_MODE_ACTIVE (fst (cycleState env st (confirmedHistoryOf hs) sp)) then 0
           else if (if DEFENSIVE_MODE_ACTIVE (fst (cycleState env st (confirmedHistoryOf hs) sp))
                then confidence pm *
                     (0.6 + (consensusScore (runAdvisoryModels (confirmedHistoryOf hs) (prediction pm)) * 0.4))
                     * 0.7
                else confidence pm *
                     (0.6 + (consensusScore (runAdvisoryModels (confirmedHistoryOf hs) (prediction pm)) * 0.4))) > 0.55
                then 1 else 0)"
    and "systemHealth (snd (snd (ultraAIPredict env st hs sp))) =
          (if DEFENSIVE_MODE_ACTIVE (fst (cycleState env st (confirmedHistoryOf hs) sp))
           then ''DEFENSIVE_MODE'' else ''OK'')"
  using gate primary by (simp_all add: ultraAIPredict_def Let_def)

text \<open>
  Claim C5. On a call that passes the history gate and whose primary model does not
  abstain, the emitted confidence is the primary confidence times
  (0.6 + 0.4 * consensus score), times 0.7 exactly when defensive mode is active at that
  point of the cycle; the confidence level is 0 whenever defensive mode is active, and
  otherwise 1 if the emitted confidence exceeds 0.55 and 0 if not.
\<close>

theorem consensus_composer:
  assumes run: "ultraAIPredict env st hs sp = (st', sp', out)"
    and gate: "MIN_HISTORY st \<le> length (confirmedHistoryOf hs)"
    and primary: "analyzeUnifiedMLModel st' (createFeatureSetForML st' (confirmedHistoryOf hs)) = Some pm"
  shows "\<exists>fc. finalConfidence out = Some fc \<and>
           fc = confidence pm *
                (0.6 + 0.4 * consensusScore (runAdvisoryModels (confirmedHistoryOf hs) (prediction pm))) *
                (if DEFENSIVE_MODE_ACTIVE st' then 0.7 else 1) \<and>
           confidenceLevel out =
             (if DEFENSIVE_MODE_ACTIVE st' then 0 else if fc > 0.55 then 1 else 0)"
proof -
  from run have st': "st' = fst (ultraAIPredict env st hs sp)"
    and out: "out = snd (snd (ultraAIPredict env st hs sp))" by simp_all
  from gate have s: "st' = fst (cycleState env st (confirmedHistoryOf hs) sp)"
    unfolding st' by (simp add: ultraAIPredict_state)
  note c = ultraAIPredict_consensus [OF gate primary [unfolded s]]
  show ?thesis
    unfolding out c(2) c(3) s [symmetric]
    by (simp add: mult.commute)
qed

lemma length_flatHistory: "length flatHistory = 100"
  by (simp add: flatHistory_def)

lemma ultraAIPredict_flat_state:
  assumes "MIN_HISTORY st = 100" and "marketEvents st = []"
  shows "fst (ultraAIPredict quietEnv st (map Some flatHistory) emptyStats) = st"
  using assms
  by (simp add: ultraAIPredict_state confirmedHistoryOf_flat cycleState_flat length_flatHistory)

lemma primary_flat:
  assumes "MIN_HISTORY st = 100" and "mlFeatureWeights st = initial_weights"
  shows "analyzeUnifiedMLModel st (createFeatureSetForML st flatHistory)
           = Some \<lparr>prediction = ''SMALL'', source = ''LearningML'', confidence = 1 / 4\<rparr>"
  by (simp only: createFeatureSetForML_flat [OF assms(1)] analyzeUnifiedMLModel_flat [OF assms(2)])

theorem consensus_composer_witness:
  "MIN_HISTORY initial_state \<le> length (confirmedHistoryOf (map Some flatHistory)) \<and>
   analyzeUnifiedMLModel initial_state
       (createFeatureSetForML initial_state (confirmedHistoryOf (map Some flatHistory)))
     = Some \<lparr>prediction = ''SMALL'', source = ''LearningML'', confidence = 1 / 4\<rparr> \<and>
   finalConfidence (snd (snd (ultraAIPredict quietEnv initial_state (map Some flatHistory) emptyStats)))
     = Some (1 / 5) \<and>
   confidenceLevel (snd (snd (ultraAIPredict quietEnv initial_state (map Some flatHistory) emptyStats)))
     = 0 \<and>
   DEFENSIVE_MODE_ACTIVE (initial_state\<lparr>DEFENSIVE_MODE_ACTIVE := True\<rparr>) \<and>
   finalConfidence (snd (snd (ultraAIPredict quietEnv (initial_state\<lparr>DEFENSIVE_MODE_ACTIVE := True\<rparr>)
       (map Some flatHistory) emptyStats)))
     = Some (7 / 50) \<and>
   confidenceLevel (snd (snd (ultraAIPredict quietEnv (initial_state\<lparr>DEFENSIVE_MODE_ACTIVE := True\<rparr>)
       (map Some flatHistory) emptyStats)))
     = 0"
proof -
  let ?hs = "map Some flatHistory"
  let ?pm = "\<lparr>prediction = ''SMALL'', source = ''LearningML'', confidence = 1 / 4\<rparr>"
  let ?d = "initial_state\<lparr>DEFENSIVE_MODE_ACTIVE := True\<rparr>"
  have c: "confirmedHistoryOf ?hs = flatHistory" by (rule confirmedHistoryOf_flat)
  have adv: "consensusScore (runAdvisoryModels flatHistory ''SMALL'') = 0.5"
    by (simp add: runAdvisoryModels_flat)
  have gate: "MIN_HISTORY initial_state \<le> length (confirmedHistoryOf ?hs)"
    by (simp add: c length_flatHistory initial_state_def)
  have gate_d: "MIN_HISTORY ?d \<le> length (confirmedHistoryOf ?hs)"
    by (simp add: c length_flatHistory initial_state_def)
  have s: "fst (ultraAIPredict quietEnv initial_state ?hs emptyStats) = initial_state"
    by (rule ultraAIPredict_flat_state) (simp_all add: initial_state_def)
  have s_d: "fst (ultraAIPredict quietEnv ?d ?hs emptyStats) = ?d"
    by (rule ultraAIPredict_flat_state) (simp_all add: initial_state_def)
  have p: "analyzeUnifiedMLModel initial_state
       (createFeatureSetForML initial_state (confirmedHistoryOf ?hs)) = Some ?pm"
    unfolding c by (rule primary_flat) (simp_all add: initial_state_def)
  have p_d: "analyzeUnifiedMLModel ?d (createFeatureSetForML ?d (confirmedHistoryOf ?hs)) = Some ?pm"
    unfolding c by (rule primary_flat) (simp_all add: initial_state_def)
  have run: "ultraAIPredict quietEnv initial_state ?hs emptyStats =
       (initial_state, fst (snd (ultraAIPredict quietEnv initial_state ?hs emptyStats)),
        snd (snd (ultraAIPredict quietEnv initial_state ?hs emptyStats)))"
    using s by (metis prod.collapse)
  have run_d: "ultraAIPredict quietEnv ?d ?hs emptyStats =
       (?d, fst (snd (ultraAIPredict quietEnv ?d ?hs emptyStats)),
        snd (snd (ultraAIPredict quietEnv ?d ?hs emptyStats)))"
    using s_d by (metis prod.collapse)
  from consensus_composer [OF run gate p]
  have r: "finalConfidence (snd (snd (ultraAIPredict quietEnv initial_state ?hs emptyStats))) = Some (1 / 5)"
     "confidenceLevel (snd (snd (ultraAIPredict quietEnv initial_state ?hs emptyStats))) = 0"
    by (auto simp: c adv initial_state_def)
  from consensus_composer [OF run_d gate_d p_d]
  have r_d: "finalConfidence (snd (snd (ultraAIPredict quietEnv ?d ?hs emptyStats))) = Some (7 / 50)"
     "confidenceLevel (snd (snd (ultraAIPredict quietEnv ?d ?hs emptyStats))) = 0"
    by (auto simp: c adv)
  have d: "DEFENSIVE_MODE_ACTIVE ?d" by simp
  from gate p r d r_d show ?thesis by blast
qed

section \<open>The emitted class\<close>

lemma primary_depends_on_weights:
  assumes "mlFeatureWeights st2 = mlFeatureWeights st1" and "MIN_HISTORY st2 = MIN_HISTORY st1"
  shows "analyzeUnifiedMLModel st2 (createFeatureSetForML st2 c)
           = analyzeUnifiedMLModel st1 (createFeatureSetForML st1 c)"
proof -
  have "createFeatureSetForML st2 c = createFeatureSetForML st1 c"
    using assms(2) by (simp add: createFeatureSetForML_def)
  moreover have "analyzeUnifiedMLModel st2 f = analyzeUnifiedMLModel st1 f" for f
    unfolding analyzeUnifiedMLModel_def assms(1) by (rule refl)
  ultimately show ?thesis by simp
qed

text \<open>
  Claim C10. On a call that passes the history gate and whose primary model does not
  abstain, the emitted class is the class of the primary model; and the primary model's
  result is the same in every state that has the same weights and history gate, whatever
  its defensive flag, threshold and sentiment events are. The advisory result enters
  neither.
\<close>

theorem final_class_is_primary_class:
  assumes run: "ultraAIPredict env st hs sp = (st', sp', out)"
    and gate: "MIN_HISTORY st \<le> length (confirmedHistoryOf hs)"
    and primary: "analyzeUnifiedMLModel st' (createFeatureSetForML st' (confirmedHistoryOf hs)) = Some pm"
  shows "finalDecision out = prediction pm \<and>
         (\<forall>st''. mlFeatureWeights st'' = mlFeatureWeights st' \<and> MIN_HISTORY st'' = MIN_HISTORY st' \<longrightarrow>
            analyzeUnifiedMLModel st'' (createFeatureSetForML st'' (confirmedHistoryOf hs)) = Some pm)"
proof -
  from run have st': "st' = fst (ultraAIPredict env st hs sp)"
    and out: "out = snd (snd (ultraAIPredict env st hs sp))" by simp_all
  from gate have s: "st' = fst (cycleState env st (confirmedHistoryOf hs) sp)"
    unfolding st' by (simp add: ultraAIPredict_state)
  have "finalDecision out = prediction pm"
    unfolding out by (rule ultraAIPredict_consensus(1) [OF gate primary [unfolded s]])
  moreover have "\<forall>st''. mlFeatureWeights st'' = mlFeatureWeights st' \<and> MIN_HISTORY st'' = MIN_HISTORY st' \<longrightarrow>
            analyzeUnifiedMLModel st'' (createFeatureSetForML st'' (confirmedHistoryOf hs)) = Some pm"
    using primary primary_depends_on_weights by metis
  ultimately show ?thesis by blast
qed

theorem final_class_is_primary_class_witness:
  "MIN_HISTORY initial_state \<le> length (confirmedHistoryOf (map Some flatHistory)) \<and>
   analyzeUnifiedMLModel initial_state
       (createFeatureSetForML initial_state (confirmedHistoryOf (map Some flatHistory)))
     = Some \<lparr>prediction = ''SMALL'', source = ''LearningML'', confidence = 1 / 4\<rparr> \<and>
   finalDecision (snd (snd (ultraAIPredict quietEnv initial_state (map Some flatHistory) emptyStats)))
     = ''SMALL'' \<and>
   analyzeUnifiedMLModel
       (initial_state\<lparr>BAD_TREND_THRESHOLD := 0.48, DEFENSIVE_MODE_ACTIVE := True\<rparr>)
       (createFeatureSetForML
          (initial_state\<lparr>BAD_TREND_THRESHOLD := 0.48, DEFENSIVE_MODE_ACTIVE := True\<rparr>)
          (confirmedHistoryOf (map Some flatHistory)))
     = Some \<lparr>prediction = ''SMALL'', source = ''LearningML'', confidence = 1 / 4\<rparr>"
proof -
  let ?hs = "map Some flatHistory"
  let ?pm = "\<lparr>prediction = ''SMALL'', source = ''LearningML'', confidence = 1 / 4\<rparr>"
  let ?d = "initial_state\<lparr>BAD_TREND_THRESHOLD := 0.48, DEFENSIVE_MODE_ACTIVE := True\<rparr>"
  have c: "confirmedHistoryOf ?hs = flatHistory" by (rule confirmedHistoryOf_flat)
  have gate: "MIN_HISTORY initial_state \<le> length (confirmedHistoryOf ?hs)"
    by (simp add: c length_flatHistory initial_state_def)
  have s: "fst (ultraAIPredict quietEnv initial_state ?hs emptyStats) = initial_state"
    by (rule ultraAIPredict_flat_state) (simp_all add: initial_state_def)
  have p: "analyzeUnifiedMLModel initial_state
       (createFeatureSetForML initial_state (confirmedHistoryOf ?hs)) = Some ?pm"
    unfolding c by (rule primary_flat) (simp_all add: initial_state_def)
  have run: "ultraAIPredict quietEnv initial_state ?hs emptyStats =
       (initial_state, fst (snd (ultraAIPredict quietEnv initial_state ?hs emptyStats)),
        snd (snd (ultraAIPredict quietEnv initial_state ?hs emptyStats)))"
    using s by (metis prod.collapse)
  note t = final_class_is_primary_class [OF run gate p]
  from t have a: "finalDecision (snd (snd (ultraAIPredict quietEnv initial_state ?hs emptyStats))) = ''SMALL''"
    by simp
  have w: "mlFeatureWeights ?d = mlFeatureWeights initial_state \<and> MIN_HISTORY ?d = MIN_HISTORY initial_state"
    by simp
  from t w have b: "analyzeUnifiedMLModel ?d (createFeatureSetForML ?d (confirmedHistoryOf ?hs)) = Some ?pm"
    by blast
  from gate p a b show ?thesis by blast
qed


section \<open>Insufficient data\<close>



lemma recordsOf_raises: "(recordsOf history = Inl TypeError) = (None \<in> set history)"
proof (induction history)
  case Nil
  show ?case by simp
next
  case (Cons p ps)
  then show ?case by (cases p) (auto split: sum.splits)
qed








lemma those_none: "None \<in> set xs \<Longrightarrow> those xs = None"
  by (induction xs) (auto split: option.splits)


lemma confirmedHistoryOf_entries: "confirmedHistoryOf raw = map the (confirmedEntries raw)"
  by (simp add: confirmedHistoryOf_def confirmedEntries_def)









end
